theory Spec2Isabelle
  imports Complex_Main "HOL-Library.Mapping"
begin

section \<open>Values of the Go program\<close>

text \<open>
  The program is \<^verbatim>\<open>cluster-autoscaler/cloudprovider/azure/azure_config.go\<close>.
  Go strings are byte sequences: \<open>string\<close>. Go's \<open>int\<close> and \<open>int64\<close> are 64 bits wide
  on the platforms the autoscaler is built for; they are \<open>int\<close> here, the parsers below
  refuse what does not fit, and the one multiplication of the file wraps explicitly.

  A floating-point value is only parsed, stored, converted and compared with zero by
  this file. It is a rational or one of the special values of IEEE 754; the zero test
  of Go (\<open>x == 0\<close>) holds of both zeros.
\<close>

datatype gofloat = Num rat | NegZero | PosInf | NegInf | NaN

definition float_is_zero :: "gofloat \<Rightarrow> bool" where
  "float_is_zero f = (f = Num 0 \<or> f = NegZero)"

text \<open>What \<open>encoding/json\<close> stores in an \<open>interface{}\<close>.\<close>

datatype json =
    JNull
  | JBool bool
  | JNumber gofloat
  | JString string
  | JArray "json list"
  | JObject "(string \<times> json) list"

text \<open>
  Every error of the file is built by \<open>fmt.Errorf\<close> or \<open>errors.New\<close>, or handed on from a
  callee. The model keeps which statement produced it: the variable or payload that
  could not be read, the identity conflict, the message of the validator, or the
  external collaborator that failed.
\<close>

datatype error =
    MalformedPayload string
  | MalformedValue string
  | ConflictingIdentity
  | ValidationFailed string
  | ProviderFailure string

definition bindE :: "error + 'a \<Rightarrow> ('a \<Rightarrow> error + 'b) \<Rightarrow> error + 'b" where
  "bindE m f = (case m of Inl e \<Rightarrow> Inl e | Inr v \<Rightarrow> f v)"

section \<open>The rate limit structures\<close>

text \<open>
  \<open>azclients.RateLimitConfig\<close> is declared in \<open>sigs.k8s.io/cloud-provider-azure\<close>; the five
  fields are the ones this file reads and writes.
\<close>

record RateLimitConfig =
  CloudProviderRateLimit :: bool
  CloudProviderRateLimitQPS :: gofloat
  CloudProviderRateLimitBucket :: int
  CloudProviderRateLimitQPSWrite :: gofloat
  CloudProviderRateLimitBucketWrite :: int

text \<open>
  A \<open>*azclients.RateLimitConfig\<close> held by a \<open>CloudProviderRateLimitConfig\<close> is \<open>nil\<close>, or
  the address of the default policy embedded in that same structure
  (\<open>&config.RateLimitConfig\<close>), or the address of an object of its own, whose content the
  pointer carries here. \<open>json.Unmarshal\<close> allocates one object for each member of the
  payload, so two overrides never share an object.
\<close>

datatype RateLimitConfigPtr =
    NilPtr
  | ToDefaults
  | ToObject RateLimitConfig

record CloudProviderRateLimitConfig =
  RateLimitConfig :: RateLimitConfig
  InterfaceRateLimit :: RateLimitConfigPtr
  VirtualMachineRateLimit :: RateLimitConfigPtr
  StorageAccountRateLimit :: RateLimitConfigPtr
  DiskRateLimit :: RateLimitConfigPtr
  VirtualMachineScaleSetRateLimit :: RateLimitConfigPtr
  KubernetesServiceRateLimit :: RateLimitConfigPtr

definition deref :: "CloudProviderRateLimitConfig \<Rightarrow> RateLimitConfigPtr \<Rightarrow> RateLimitConfig option" where
  "deref config p =
     (case p of
        NilPtr \<Rightarrow> None
      | ToDefaults \<Rightarrow> Some (RateLimitConfig config)
      | ToObject c \<Rightarrow> Some c)"

text \<open>The six resource kinds, and the pointer each one names.\<close>

datatype ResourceKind =
    Interface
  | VirtualMachine
  | StorageAccount
  | Disk
  | VirtualMachineScaleSet
  | KubernetesService

fun rateLimitOf :: "ResourceKind \<Rightarrow> CloudProviderRateLimitConfig \<Rightarrow> RateLimitConfigPtr" where
  "rateLimitOf Interface config = InterfaceRateLimit config"
| "rateLimitOf VirtualMachine config = VirtualMachineRateLimit config"
| "rateLimitOf StorageAccount config = StorageAccountRateLimit config"
| "rateLimitOf Disk config = DiskRateLimit config"
| "rateLimitOf VirtualMachineScaleSet config = VirtualMachineScaleSetRateLimit config"
| "rateLimitOf KubernetesService config = KubernetesServiceRateLimit config"

text \<open>The zero value \<open>azclients.RateLimitConfig{CloudProviderRateLimit: false}\<close>.\<close>

definition disabledRateLimitConfig :: RateLimitConfig where
  "disabledRateLimitConfig =
     \<lparr> CloudProviderRateLimit = False,
       CloudProviderRateLimitQPS = Num 0,
       CloudProviderRateLimitBucket = 0,
       CloudProviderRateLimitQPSWrite = Num 0,
       CloudProviderRateLimitBucketWrite = 0 \<rparr>"

text \<open>Lines 454 to 466: the four assignments, in the order of the source.\<close>

definition applyDefaultValues :: "RateLimitConfig \<Rightarrow> RateLimitConfig \<Rightarrow> RateLimitConfig" where
  "applyDefaultValues defaults config =
     (let c1 = (if float_is_zero (CloudProviderRateLimitQPS config)
                then config\<lparr>CloudProviderRateLimitQPS := CloudProviderRateLimitQPS defaults\<rparr>
                else config);
          c2 = (if CloudProviderRateLimitBucket c1 = 0
                then c1\<lparr>CloudProviderRateLimitBucket := CloudProviderRateLimitBucket defaults\<rparr>
                else c1);
          c3 = (if float_is_zero (CloudProviderRateLimitQPSWrite c2)
                then c2\<lparr>CloudProviderRateLimitQPSWrite := CloudProviderRateLimitQPSWrite defaults\<rparr>
                else c2)
      in (if CloudProviderRateLimitBucketWrite c3 = 0
          then c3\<lparr>CloudProviderRateLimitBucketWrite := CloudProviderRateLimitBucketWrite defaults\<rparr>
          else c3))"

text \<open>
  \<open>overrideDefaultRateLimitConfig(defaults, config)\<close>, lines 443 to 469. Every call of the
  file passes \<open>&config.RateLimitConfig\<close> as \<open>defaults\<close>: the first argument is the content
  of that embedded policy, and returning \<open>defaults\<close> is returning \<open>ToDefaults\<close>. An override
  that already points to the embedded policy reads and writes that policy itself, so
  the four assignments change nothing.
\<close>

definition overrideDefaultRateLimitConfig :: "RateLimitConfig \<Rightarrow> RateLimitConfigPtr \<Rightarrow> RateLimitConfigPtr" where
  "overrideDefaultRateLimitConfig defaults config =
     (case config of
        NilPtr \<Rightarrow> ToDefaults
      | ToDefaults \<Rightarrow>
          (if CloudProviderRateLimit defaults then ToDefaults
           else ToObject disabledRateLimitConfig)
      | ToObject c \<Rightarrow>
          (if CloudProviderRateLimit c then ToObject (applyDefaultValues defaults c)
           else ToObject disabledRateLimitConfig))"

section \<open>What the file takes from outside\<close>

text \<open>
  The process environment, the two external collaborators, the constants that other
  files of the package declare, and the library functions that are not modelled
  bit by bit:
  \<^item> \<open>environ\<close>: the environment, a variable that is not set being \<open>None\<close>;
  \<^item> \<open>instanceMetadata url\<close>: the subscription id that the instance metadata service at
    \<open>url\<close> reports (\<open>NewInstanceMetadataService\<close>, then \<open>GetMetadata\<close>), or its error;
  \<^item> \<open>readDeploymentParameters path\<close>: what the function of that name, declared in
    another file of the package, returns for the parameters file at \<open>path\<close>: the
    parameters, or the error;
  \<^item> \<open>vmTypeVMSS\<close>, \<open>vmTypeStandard\<close>, \<open>defaultMaxDeploymentsCount\<close>: constants declared
    in other files of the package;
  \<^item> \<open>ParseFloat\<close>: \<open>strconv.ParseFloat\<close> at 64 bits (\<open>None\<close> when it returns an error),
    \<open>float32\<close>: the conversion to single precision, \<open>unicodeToLower\<close>: what
    \<open>strings.ToLower\<close> returns for a string that is not pure ASCII.
\<close>

record externals =
  environ :: "string \<rightharpoonup> string"
  instanceMetadata :: "string \<Rightarrow> error + string"
  readDeploymentParameters :: "string \<Rightarrow> error + (string, json) mapping"
  vmTypeVMSS :: string
  vmTypeStandard :: string
  defaultMaxDeploymentsCount :: int
  ParseFloat :: "string \<Rightarrow> gofloat option"
  float32 :: "gofloat \<Rightarrow> gofloat"
  unicodeToLower :: "string \<Rightarrow> string"

text \<open>\<open>os.Getenv\<close> returns the empty string for a variable that is not set; \<open>os.LookupEnv\<close> tells the two apart.\<close>

definition Getenv :: "externals \<Rightarrow> string \<Rightarrow> string" where
  "Getenv x key = (case environ x key of None \<Rightarrow> [] | Some v \<Rightarrow> v)"

definition LookupEnv :: "externals \<Rightarrow> string \<Rightarrow> string option" where
  "LookupEnv x key = environ x key"

subsection \<open>\<open>strconv\<close>\<close>

text \<open>\<open>strconv.ParseBool\<close>: twelve spellings, an error for everything else.\<close>

definition ParseBool :: "string \<Rightarrow> bool option" where
  "ParseBool str =
     (if str \<in> set [''1'', ''t'', ''T'', ''TRUE'', ''true'', ''True''] then Some True
      else if str \<in> set [''0'', ''f'', ''F'', ''FALSE'', ''false'', ''False''] then Some False
      else None)"

definition isDigit :: "char \<Rightarrow> bool" where
  "isDigit c = (48 \<le> (of_char c :: nat) \<and> (of_char c :: nat) \<le> 57)"

text \<open>The digits of a decimal numeral, read without a bound.\<close>

definition ParseUint :: "string \<Rightarrow> nat option" where
  "ParseUint s =
     (if s = [] then None
      else if list_all isDigit s then Some (foldl (\<lambda>n c. 10 * n + (of_char c - 48)) 0 s)
      else None)"

text \<open>
  \<open>strconv.ParseInt(s, 10, 0)\<close>, the only way the file calls it: an optional sign, at
  least one decimal digit, nothing else, and a value of 64 bits. \<open>None\<close> is the syntax
  error or the range error.
\<close>

definition ParseInt :: "string \<Rightarrow> int option" where
  "ParseInt s =
     (case s of
        [] \<Rightarrow> None
      | c # cs \<Rightarrow>
          (let neg = (c = CHR ''-'');
               s1 = (if c = CHR ''+'' \<or> c = CHR ''-'' then cs else s)
           in case ParseUint s1 of
                None \<Rightarrow> None
              | Some un \<Rightarrow>
                  (if neg then (if 2 ^ 63 < un then None else Some (- int un))
                   else (if 2 ^ 63 \<le> un then None else Some (int un)))))"

text \<open>\<open>strconv.Atoi(s)\<close> accepts what \<open>ParseInt(s, 10, 0)\<close> accepts, with the same value.\<close>

definition Atoi :: "string \<Rightarrow> int option" where
  "Atoi s = ParseInt s"

subsection \<open>\<open>strings\<close>\<close>

text \<open>
  The UTF-8 encodings of the runes for which \<open>unicode.IsSpace\<close> holds: tab, line feed,
  vertical tab, form feed, carriage return, space, U+0085, U+00A0, U+1680, U+2000 to
  U+200A, U+2028, U+2029, U+202F, U+205F and U+3000.
\<close>

definition whiteSpace :: "string list" where
  "whiteSpace =
     [[CHR 0x09], [CHR 0x0A], [CHR 0x0B], [CHR 0x0C], [CHR 0x0D], [CHR 0x20],
      [CHR 0xC2, CHR 0x85], [CHR 0xC2, CHR 0xA0], [CHR 0xE1, CHR 0x9A, CHR 0x80],
      [CHR 0xE2, CHR 0x80, CHR 0x80], [CHR 0xE2, CHR 0x80, CHR 0x81],
      [CHR 0xE2, CHR 0x80, CHR 0x82], [CHR 0xE2, CHR 0x80, CHR 0x83],
      [CHR 0xE2, CHR 0x80, CHR 0x84], [CHR 0xE2, CHR 0x80, CHR 0x85],
      [CHR 0xE2, CHR 0x80, CHR 0x86], [CHR 0xE2, CHR 0x80, CHR 0x87],
      [CHR 0xE2, CHR 0x80, CHR 0x88], [CHR 0xE2, CHR 0x80, CHR 0x89],
      [CHR 0xE2, CHR 0x80, CHR 0x8A], [CHR 0xE2, CHR 0x80, CHR 0xA8],
      [CHR 0xE2, CHR 0x80, CHR 0xA9], [CHR 0xE2, CHR 0x80, CHR 0xAF],
      [CHR 0xE2, CHR 0x81, CHR 0x9F], [CHR 0xE3, CHR 0x80, CHR 0x80]]"

text \<open>The number of bytes of the sequence of \<open>ws\<close> that \<open>s\<close> starts with; 0 when there is none.\<close>

definition leading :: "string list \<Rightarrow> string \<Rightarrow> nat" where
  "leading ws s =
     (case filter (\<lambda>w. w \<noteq> [] \<and> take (length w) s = w) ws of
        [] \<Rightarrow> 0
      | w # _ \<Rightarrow> length w)"

fun trimLeading :: "string list \<Rightarrow> string \<Rightarrow> string" where
  "trimLeading ws [] = []"
| "trimLeading ws (c # cs) =
     (if leading ws (c # cs) = 0 then c # cs
      else trimLeading ws (drop (leading ws (c # cs) - 1) cs))"

text \<open>
  \<open>strings.TrimSpace\<close>: the white space runes are cut from the front, then from the back
  (a rune ends the string exactly when its encoding does).
\<close>

definition strings_TrimSpace :: "string \<Rightarrow> string" where
  "strings_TrimSpace s = rev (trimLeading (map rev whiteSpace) (rev (trimLeading whiteSpace s)))"

text \<open>
  \<open>strings.ToLower\<close>: on a string of ASCII bytes the letters A to Z move to a to z; any
  other string goes through the Unicode tables.
\<close>

definition asciiLower :: "char \<Rightarrow> char" where
  "asciiLower c =
     (case map_of (zip ''ABCDEFGHIJKLMNOPQRSTUVWXYZ'' ''abcdefghijklmnopqrstuvwxyz'') c of
        None \<Rightarrow> c
      | Some l \<Rightarrow> l)"

definition ToLower :: "externals \<Rightarrow> string \<Rightarrow> string" where
  "ToLower x s =
     (if list_all (\<lambda>c. (of_char c :: nat) < 128) s then map asciiLower s
      else unicodeToLower x s)"

section \<open>Constants of the file\<close>

definition deploymentParametersPath :: string where
  "deploymentParametersPath = ''/var/lib/azure/azuredeploy.parameters.json''"

definition imdsServerURL :: string where
  "imdsServerURL = ''http://169.254.169.254''"

definition backoffRetriesDefault :: int where
  "backoffRetriesDefault = 6"

definition backoffExponentDefault :: gofloat where
  "backoffExponentDefault = Num (3 / 2)"

definition backoffDurationDefault :: int where
  "backoffDurationDefault = 5"

definition backoffJitterDefault :: gofloat where
  "backoffJitterDefault = Num 1"

definition rateLimitQPSDefault :: gofloat where
  "rateLimitQPSDefault = Num 1"

definition rateLimitBucketDefault :: int where
  "rateLimitBucketDefault = 5"

definition rateLimitReadQPSEnvVar :: string where
  "rateLimitReadQPSEnvVar = ''RATE_LIMIT_READ_QPS''"

definition rateLimitReadBucketsEnvVar :: string where
  "rateLimitReadBucketsEnvVar = ''RATE_LIMIT_READ_BUCKETS''"

definition rateLimitWriteQPSEnvVar :: string where
  "rateLimitWriteQPSEnvVar = ''RATE_LIMIT_WRITE_QPS''"

definition rateLimitWriteBucketsEnvVar :: string where
  "rateLimitWriteBucketsEnvVar = ''RATE_LIMIT_WRITE_BUCKETS''"

definition VmssSizeRefreshPeriodDefault :: int where
  "VmssSizeRefreshPeriodDefault = 30"

definition authMethodPrincipal :: string where
  "authMethodPrincipal = ''principal''"

definition authMethodCLI :: string where
  "authMethodCLI = ''cli''"

definition dynamicInstanceListDefault :: bool where
  "dynamicInstanceListDefault = False"

definition enableVmssFlexDefault :: bool where
  "enableVmssFlexDefault = False"

section \<open>Reading one variable\<close>

text \<open>
  The shape the file repeats for a typed variable:
  \<^verbatim>\<open>if v := os.Getenv(key); v != "" { field, err = parse(v); if err != nil { return nil, ... } }\<close>
  with or without an \<open>else\<close> that assigns a default. \<open>otherwise\<close> is the value the field
  has when the variable is empty or not set: the default of the \<open>else\<close> branch, or what
  the field held before.
\<close>

definition fromEnv :: "externals \<Rightarrow> string \<Rightarrow> (string \<Rightarrow> 'a option) \<Rightarrow> 'a \<Rightarrow> error + 'a" where
  "fromEnv x key parse otherwise =
     (let v = Getenv x key in
      if v \<noteq> [] then
        (case parse v of
           None \<Rightarrow> Inl (MalformedValue key)
         | Some a \<Rightarrow> Inr a)
      else Inr otherwise)"

section \<open>\<open>initializeCloudProviderRateLimitConfig\<close>\<close>

text \<open>Lines 383 to 393.\<close>

definition assignReadQPS :: "externals \<Rightarrow> RateLimitConfig \<Rightarrow> error + RateLimitConfig" where
  "assignReadQPS x config =
     (if float_is_zero (CloudProviderRateLimitQPS config) then
        bindE (fromEnv x rateLimitReadQPSEnvVar (map_option (float32 x) \<circ> ParseFloat x) rateLimitQPSDefault)
          (\<lambda>rateLimitQPS. Inr (config\<lparr>CloudProviderRateLimitQPS := rateLimitQPS\<rparr>))
      else Inr config)"

text \<open>Lines 395 to 405.\<close>

definition assignReadBucket :: "externals \<Rightarrow> RateLimitConfig \<Rightarrow> error + RateLimitConfig" where
  "assignReadBucket x config =
     (if CloudProviderRateLimitBucket config = 0 then
        bindE (fromEnv x rateLimitReadBucketsEnvVar ParseInt rateLimitBucketDefault)
          (\<lambda>rateLimitBucket. Inr (config\<lparr>CloudProviderRateLimitBucket := rateLimitBucket\<rparr>))
      else Inr config)"

text \<open>Lines 408 to 418: without the variable, the write rate is the read rate that now stands in \<open>config\<close>.\<close>

definition assignWriteQPS :: "externals \<Rightarrow> RateLimitConfig \<Rightarrow> error + RateLimitConfig" where
  "assignWriteQPS x config =
     (if float_is_zero (CloudProviderRateLimitQPSWrite config) then
        bindE (fromEnv x rateLimitWriteQPSEnvVar (map_option (float32 x) \<circ> ParseFloat x)
                 (CloudProviderRateLimitQPS config))
          (\<lambda>rateLimitQPSWrite. Inr (config\<lparr>CloudProviderRateLimitQPSWrite := rateLimitQPSWrite\<rparr>))
      else Inr config)"

text \<open>Lines 420 to 430.\<close>

definition assignWriteBucket :: "externals \<Rightarrow> RateLimitConfig \<Rightarrow> error + RateLimitConfig" where
  "assignWriteBucket x config =
     (if CloudProviderRateLimitBucketWrite config = 0 then
        bindE (fromEnv x rateLimitWriteBucketsEnvVar ParseInt (CloudProviderRateLimitBucket config))
          (\<lambda>rateLimitBucketWrite. Inr (config\<lparr>CloudProviderRateLimitBucketWrite := rateLimitBucketWrite\<rparr>))
      else Inr config)"

text \<open>
  Lines 432 to 437: six assignments. No call changes the embedded policy, and each
  reads only its own pointer, so the six results are written at once.
\<close>

definition applyOverrides :: "CloudProviderRateLimitConfig \<Rightarrow> CloudProviderRateLimitConfig" where
  "applyOverrides config =
     config
       \<lparr> InterfaceRateLimit :=
           overrideDefaultRateLimitConfig (RateLimitConfig config) (InterfaceRateLimit config),
         VirtualMachineRateLimit :=
           overrideDefaultRateLimitConfig (RateLimitConfig config) (VirtualMachineRateLimit config),
         StorageAccountRateLimit :=
           overrideDefaultRateLimitConfig (RateLimitConfig config) (StorageAccountRateLimit config),
         DiskRateLimit :=
           overrideDefaultRateLimitConfig (RateLimitConfig config) (DiskRateLimit config),
         VirtualMachineScaleSetRateLimit :=
           overrideDefaultRateLimitConfig (RateLimitConfig config) (VirtualMachineScaleSetRateLimit config),
         KubernetesServiceRateLimit :=
           overrideDefaultRateLimitConfig (RateLimitConfig config) (KubernetesServiceRateLimit config) \<rparr>"

text \<open>Lines 383 to 430: the four fields of the default policy, one after the other.\<close>

definition assignDefaults :: "externals \<Rightarrow> RateLimitConfig \<Rightarrow> error + RateLimitConfig" where
  "assignDefaults x config =
     bindE (assignReadQPS x config) (\<lambda>config.
     bindE (assignReadBucket x config) (\<lambda>config.
     bindE (assignWriteQPS x config) (\<lambda>config.
     assignWriteBucket x config)))"

text \<open>
  The function takes a pointer and changes the structure behind it; here it takes the
  structure (\<open>None\<close> for a \<open>nil\<close> pointer) and returns the error, or the structure as the
  call leaves it.
\<close>

definition initializeCloudProviderRateLimitConfig ::
    "externals \<Rightarrow> CloudProviderRateLimitConfig option \<Rightarrow> error + CloudProviderRateLimitConfig option" where
  "initializeCloudProviderRateLimitConfig x config =
     (case config of
        None \<Rightarrow> Inr None
      | Some c \<Rightarrow>
          bindE (assignDefaults x (RateLimitConfig c)) (\<lambda>defaults.
          Inr (Some (applyOverrides (c\<lparr>RateLimitConfig := defaults\<rparr>)))))"

text \<open>
  The policy in force for a resource kind once \<open>initializeCloudProviderRateLimitConfig\<close>
  has returned without an error: what the kind's pointer then points to.
\<close>

definition effectivePolicy ::
    "externals \<Rightarrow> CloudProviderRateLimitConfig \<Rightarrow> ResourceKind \<Rightarrow> RateLimitConfig option" where
  "effectivePolicy x config kind =
     (case initializeCloudProviderRateLimitConfig x (Some config) of
        Inr (Some config') \<Rightarrow> deref config' (rateLimitOf kind config')
      | _ \<Rightarrow> None)"

text \<open>
  How \<open>json.Unmarshal\<close> fills a fresh \<open>azclients.RateLimitConfig\<close> from the JSON object of
  an override: a member that the object does not have leaves the field at its zero
  value. \<open>None\<close> is a member that is absent.
\<close>

record RateLimitConfigObject =
  cloudProviderRateLimit :: "bool option"
  cloudProviderRateLimitQPS :: "gofloat option"
  cloudProviderRateLimitBucket :: "int option"
  cloudProviderRateLimitQPSWrite :: "gofloat option"
  cloudProviderRateLimitBucketWrite :: "int option"

definition unmarshalRateLimitConfig :: "RateLimitConfigObject \<Rightarrow> RateLimitConfig" where
  "unmarshalRateLimitConfig obj =
     \<lparr> CloudProviderRateLimit =
         (case cloudProviderRateLimit obj of None \<Rightarrow> False | Some b \<Rightarrow> b),
       CloudProviderRateLimitQPS =
         (case cloudProviderRateLimitQPS obj of None \<Rightarrow> Num 0 | Some q \<Rightarrow> q),
       CloudProviderRateLimitBucket =
         (case cloudProviderRateLimitBucket obj of None \<Rightarrow> 0 | Some n \<Rightarrow> n),
       CloudProviderRateLimitQPSWrite =
         (case cloudProviderRateLimitQPSWrite obj of None \<Rightarrow> Num 0 | Some q \<Rightarrow> q),
       CloudProviderRateLimitBucketWrite =
         (case cloudProviderRateLimitBucketWrite obj of None \<Rightarrow> 0 | Some n \<Rightarrow> n) \<rparr>"

section \<open>\<open>Config\<close>\<close>

record Config =
  CloudProviderRateLimitConfig :: CloudProviderRateLimitConfig
  Cloud :: string
  Location :: string
  TenantID :: string
  SubscriptionID :: string
  ClusterName :: string
  ResourceGroup :: string
  ClusterResourceGroup :: string
  VMType :: string
  ARMBaseURLForAPClient :: string
  AuthMethod :: string
  AADClientID :: string
  AADClientSecret :: string
  AADClientCertPath :: string
  AADClientCertPassword :: string
  AADFederatedTokenFile :: string
  UseManagedIdentityExtension :: bool
  UseWorkloadIdentityExtension :: bool
  UserAssignedIdentityID :: string
  Deployment :: string
  DeploymentParameters :: "(string, json) mapping"
  VmssCacheTTL :: int
  VmssVmsCacheTTL :: int
  VmssVmsCacheJitter :: int
  GetVmssSizeRefreshPeriod :: int
  MaxDeploymentsCount :: int
  CloudProviderBackoff :: bool
  CloudProviderBackoffRetries :: int
  CloudProviderBackoffExponent :: gofloat
  CloudProviderBackoffDuration :: int
  CloudProviderBackoffJitter :: gofloat
  EnableForceDelete :: bool
  EnableDynamicInstanceList :: bool
  EnableVmssFlex :: bool

text \<open>\<open>&Config{}\<close>: every field at the zero value of its type.\<close>

definition emptyConfig :: Config where
  "emptyConfig =
     \<lparr> CloudProviderRateLimitConfig =
         \<lparr> RateLimitConfig = disabledRateLimitConfig,
           InterfaceRateLimit = NilPtr,
           VirtualMachineRateLimit = NilPtr,
           StorageAccountRateLimit = NilPtr,
           DiskRateLimit = NilPtr,
           VirtualMachineScaleSetRateLimit = NilPtr,
           KubernetesServiceRateLimit = NilPtr \<rparr>,
       Cloud = [], Location = [], TenantID = [], SubscriptionID = [], ClusterName = [],
       ResourceGroup = [], ClusterResourceGroup = [], VMType = [],
       ARMBaseURLForAPClient = [], AuthMethod = [],
       AADClientID = [], AADClientSecret = [], AADClientCertPath = [],
       AADClientCertPassword = [], AADFederatedTokenFile = [],
       UseManagedIdentityExtension = False, UseWorkloadIdentityExtension = False,
       UserAssignedIdentityID = [],
       Deployment = [], DeploymentParameters = Mapping.empty,
       VmssCacheTTL = 0, VmssVmsCacheTTL = 0, VmssVmsCacheJitter = 0,
       GetVmssSizeRefreshPeriod = 0, MaxDeploymentsCount = 0,
       CloudProviderBackoff = False, CloudProviderBackoffRetries = 0,
       CloudProviderBackoffExponent = Num 0, CloudProviderBackoffDuration = 0,
       CloudProviderBackoffJitter = Num 0,
       EnableForceDelete = False, EnableDynamicInstanceList = False, EnableVmssFlex = False \<rparr>"

text \<open>\<open>cfg.TrimSpace()\<close>, lines 497 to 511: thirteen assignments.\<close>

definition TrimSpace :: "Config \<Rightarrow> Config" where
  "TrimSpace cfg =
     cfg
       \<lparr> Cloud := strings_TrimSpace (Cloud cfg),
         Location := strings_TrimSpace (Location cfg),
         TenantID := strings_TrimSpace (TenantID cfg),
         SubscriptionID := strings_TrimSpace (SubscriptionID cfg),
         ClusterName := strings_TrimSpace (ClusterName cfg),
         ResourceGroup := strings_TrimSpace (ResourceGroup cfg),
         ClusterResourceGroup := strings_TrimSpace (ClusterResourceGroup cfg),
         VMType := strings_TrimSpace (VMType cfg),
         AADClientID := strings_TrimSpace (AADClientID cfg),
         AADClientSecret := strings_TrimSpace (AADClientSecret cfg),
         AADClientCertPath := strings_TrimSpace (AADClientCertPath cfg),
         AADClientCertPassword := strings_TrimSpace (AADClientCertPassword cfg),
         Deployment := strings_TrimSpace (Deployment cfg) \<rparr>"

text \<open>\<open>cfg.validate()\<close>, lines 513 to 556; \<open>None\<close> is the \<open>nil\<close> error.\<close>

definition validate :: "externals \<Rightarrow> Config \<Rightarrow> error option" where
  "validate x cfg =
     (if ResourceGroup cfg = [] then Some (ValidationFailed ''resource group not set'')
      else if VMType cfg = vmTypeStandard x \<and> Deployment cfg = []
        then Some (ValidationFailed ''deployment not set'')
      else if VMType cfg = vmTypeStandard x \<and> Mapping.is_empty (DeploymentParameters cfg)
        then Some (ValidationFailed ''deploymentParameters not set'')
      else if SubscriptionID cfg = [] then Some (ValidationFailed ''subscription ID not set'')
      else if UseManagedIdentityExtension cfg then None
      else if TenantID cfg = [] then Some (ValidationFailed ''tenant ID not set'')
      else if (AuthMethod cfg = [] \<or> AuthMethod cfg = authMethodPrincipal) \<and> AADClientID cfg = []
        then Some (ValidationFailed ''ARM Client ID not set'')
      else if AuthMethod cfg \<noteq> [] \<and> AuthMethod cfg \<noteq> authMethodPrincipal
              \<and> AuthMethod cfg \<noteq> authMethodCLI
        then Some (ValidationFailed (''unsupported authorization method: '' @ AuthMethod cfg))
      else if CloudProviderBackoff cfg \<and> CloudProviderBackoffRetries cfg = 0
        then Some (ValidationFailed ''Cloud provider backoff is enabled but retries are not set'')
      else None)"

text \<open>\<open>getSubscriptionIdFromInstanceMetadata\<close>, lines 559 to 575.\<close>

definition getSubscriptionIdFromInstanceMetadata :: "externals \<Rightarrow> error + string" where
  "getSubscriptionIdFromInstanceMetadata x =
     (case LookupEnv x ''ARM_SUBSCRIPTION_ID'' of
        None \<Rightarrow> instanceMetadata x imdsServerURL
      | Some subscriptionID \<Rightarrow> Inr subscriptionID)"

section \<open>\<open>BuildAzureConfig\<close>\<close>

text \<open>
  What \<open>ioutil.ReadAll\<close> and \<open>json.Unmarshal\<close> make of a reader that is not \<open>nil\<close>: the read
  fails, or the body does not decode, or it decodes into the \<open>Config\<close> given. The
  argument of \<open>BuildAzureConfig\<close> is \<open>None\<close> for the \<open>nil\<close> reader.
\<close>

datatype payload =
    Unreadable
  | Undecodable
  | Decoded Config

text \<open>Lines 172 to 219 of the branch that reads the environment.\<close>

definition identityFromEnv :: "externals \<Rightarrow> error + Config" where
  "identityFromEnv x =
     (let cfg = emptyConfig
            \<lparr> Cloud := Getenv x ''ARM_CLOUD'',
              Location := Getenv x ''LOCATION'',
              ResourceGroup := Getenv x ''ARM_RESOURCE_GROUP'',
              TenantID :=
                (let tenantId = Getenv x ''AZURE_TENANT_ID'' in
                 if tenantId \<noteq> [] then tenantId else Getenv x ''ARM_TENANT_ID''),
              AADClientID :=
                (let clientId = Getenv x ''AZURE_CLIENT_ID'' in
                 if clientId \<noteq> [] then clientId else Getenv x ''ARM_CLIENT_ID''),
              AADFederatedTokenFile := Getenv x ''AZURE_FEDERATED_TOKEN_FILE'',
              AADClientSecret := Getenv x ''ARM_CLIENT_SECRET'',
              VMType := ToLower x (Getenv x ''ARM_VM_TYPE''),
              AADClientCertPath := Getenv x ''ARM_CLIENT_CERT_PATH'',
              AADClientCertPassword := Getenv x ''ARM_CLIENT_CERT_PASSWORD'',
              Deployment := Getenv x ''ARM_DEPLOYMENT'' \<rparr>
      in
      bindE (getSubscriptionIdFromInstanceMetadata x) (\<lambda>subscriptionID.
      bindE (fromEnv x ''ARM_USE_MANAGED_IDENTITY_EXTENSION'' ParseBool
               (UseManagedIdentityExtension cfg)) (\<lambda>useManagedIdentityExtension.
      bindE (fromEnv x ''ARM_USE_WORKLOAD_IDENTITY_EXTENSION'' ParseBool
               (UseWorkloadIdentityExtension cfg)) (\<lambda>useWorkloadIdentityExtension.
      if useManagedIdentityExtension \<and> useWorkloadIdentityExtension then Inl ConflictingIdentity
      else
        (let userAssignedIdentityIDFromEnv = Getenv x ''ARM_USER_ASSIGNED_IDENTITY_ID'' in
         Inr (cfg
           \<lparr> SubscriptionID := subscriptionID,
             UseManagedIdentityExtension := useManagedIdentityExtension,
             UseWorkloadIdentityExtension := useWorkloadIdentityExtension,
             UserAssignedIdentityID :=
               (if userAssignedIdentityIDFromEnv \<noteq> [] then userAssignedIdentityIDFromEnv
                else UserAssignedIdentityID cfg) \<rparr>))))))"

text \<open>Lines 221 to 281.\<close>

definition tuningFromEnv :: "externals \<Rightarrow> Config \<Rightarrow> error + Config" where
  "tuningFromEnv x cfg =
     bindE (fromEnv x ''AZURE_VMSS_CACHE_TTL'' ParseInt (VmssCacheTTL cfg)) (\<lambda>vmssCacheTTL.
     bindE (fromEnv x ''AZURE_VMSS_VMS_CACHE_TTL'' ParseInt (VmssVmsCacheTTL cfg)) (\<lambda>vmssVmsCacheTTL.
     bindE (fromEnv x ''AZURE_VMSS_VMS_CACHE_JITTER'' Atoi (VmssVmsCacheJitter cfg)) (\<lambda>vmssVmsCacheJitter.
     bindE (fromEnv x ''AZURE_MAX_DEPLOYMENT_COUNT'' ParseInt (MaxDeploymentsCount cfg)) (\<lambda>threshold.
     bindE (fromEnv x ''ENABLE_BACKOFF'' ParseBool (CloudProviderBackoff cfg)) (\<lambda>enableBackoff.
     bindE (fromEnv x ''AZURE_ENABLE_DYNAMIC_INSTANCE_LIST'' ParseBool dynamicInstanceListDefault)
       (\<lambda>enableDynamicInstanceList.
     bindE (fromEnv x ''AZURE_GET_VMSS_SIZE_REFRESH_PERIOD'' Atoi VmssSizeRefreshPeriodDefault)
       (\<lambda>getVmssSizeRefreshPeriod.
     bindE (fromEnv x ''AZURE_ENABLE_VMSS_FLEX'' ParseBool enableVmssFlexDefault) (\<lambda>enableVmssFlex.
     Inr (cfg
       \<lparr> VmssCacheTTL := vmssCacheTTL,
         VmssVmsCacheTTL := vmssVmsCacheTTL,
         VmssVmsCacheJitter := vmssVmsCacheJitter,
         MaxDeploymentsCount := threshold,
         CloudProviderBackoff := enableBackoff,
         EnableDynamicInstanceList := enableDynamicInstanceList,
         GetVmssSizeRefreshPeriod := getVmssSizeRefreshPeriod,
         EnableVmssFlex := enableVmssFlex \<rparr>)))))))))"

text \<open>Lines 283 to 321: the four backoff parameters, read only when backoff is enabled.\<close>

definition backoffFromEnv :: "externals \<Rightarrow> Config \<Rightarrow> error + Config" where
  "backoffFromEnv x cfg =
     (if CloudProviderBackoff cfg then
        bindE (fromEnv x ''BACKOFF_RETRIES'' ParseInt backoffRetriesDefault) (\<lambda>retries.
        bindE (fromEnv x ''BACKOFF_EXPONENT'' (ParseFloat x) backoffExponentDefault) (\<lambda>backoffExponent.
        bindE (fromEnv x ''BACKOFF_DURATION'' ParseInt backoffDurationDefault) (\<lambda>duration.
        bindE (fromEnv x ''BACKOFF_JITTER'' (ParseFloat x) backoffJitterDefault) (\<lambda>backoffJitter.
        Inr (cfg
          \<lparr> CloudProviderBackoffRetries := retries,
            CloudProviderBackoffExponent := backoffExponent,
            CloudProviderBackoffDuration := duration,
            CloudProviderBackoffJitter := backoffJitter \<rparr>)))))
      else Inr cfg)"

text \<open>Lines 162 to 322: the payload, or the environment.\<close>

definition populate :: "externals \<Rightarrow> payload option \<Rightarrow> error + Config" where
  "populate x configReader =
     (case configReader of
        Some Unreadable \<Rightarrow> Inl (MalformedPayload ''failed to read config'')
      | Some Undecodable \<Rightarrow> Inl (MalformedPayload ''failed to unmarshal config body'')
      | Some (Decoded cfg) \<Rightarrow> Inr cfg
      | None \<Rightarrow>
          bindE (identityFromEnv x) (\<lambda>cfg.
          bindE (tuningFromEnv x cfg) (\<lambda>cfg.
          backoffFromEnv x cfg)))"

text \<open>
  Lines 324 to 329: three fields are always read from the environment, then the
  strings are trimmed.
\<close>

definition alwaysFromEnv :: "externals \<Rightarrow> Config \<Rightarrow> Config" where
  "alwaysFromEnv x cfg =
     TrimSpace (cfg
       \<lparr> ClusterName := Getenv x ''CLUSTER_NAME'',
         ClusterResourceGroup := Getenv x ''ARM_CLUSTER_RESOURCE_GROUP'',
         ARMBaseURLForAPClient := Getenv x ''ARM_BASE_URL_FOR_AP_CLIENT'' \<rparr>)"

text \<open>Lines 331 to 343; \<open>cfg.CloudProviderRateLimit\<close> is the switch of the embedded default policy.\<close>

definition switchesFromEnv :: "externals \<Rightarrow> Config \<Rightarrow> error + Config" where
  "switchesFromEnv x cfg =
     bindE (fromEnv x ''CLOUD_PROVIDER_RATE_LIMIT'' ParseBool
              (CloudProviderRateLimit (RateLimitConfig (CloudProviderRateLimitConfig cfg))))
       (\<lambda>cloudProviderRateLimit.
     bindE (fromEnv x ''AZURE_ENABLE_FORCE_DELETE'' ParseBool (EnableForceDelete cfg))
       (\<lambda>enableForceDelete.
     Inr (cfg
       \<lparr> CloudProviderRateLimitConfig :=
           (CloudProviderRateLimitConfig cfg)
             \<lparr> RateLimitConfig :=
                 (RateLimitConfig (CloudProviderRateLimitConfig cfg))
                   \<lparr> CloudProviderRateLimit := cloudProviderRateLimit \<rparr> \<rparr>,
         EnableForceDelete := enableForceDelete \<rparr>)))"

text \<open>Lines 345 to 348: the call on \<open>&cfg.CloudProviderRateLimitConfig\<close>, which is never \<open>nil\<close>.\<close>

definition rateLimitsOfConfig :: "externals \<Rightarrow> Config \<Rightarrow> error + Config" where
  "rateLimitsOfConfig x cfg =
     bindE (initializeCloudProviderRateLimitConfig x (Some (CloudProviderRateLimitConfig cfg)))
       (\<lambda>initialized.
     Inr (case initialized of
            None \<Rightarrow> cfg
          | Some config \<Rightarrow> cfg\<lparr>CloudProviderRateLimitConfig := config\<rparr>))"

text \<open>Lines 350 to 353.\<close>

definition defaultVMType :: "externals \<Rightarrow> Config \<Rightarrow> Config" where
  "defaultVMType x cfg = (if VMType cfg = [] then cfg\<lparr>VMType := vmTypeVMSS x\<rparr> else cfg)"

text \<open>Lines 355 to 364.\<close>

definition deploymentParametersFromFile :: "externals \<Rightarrow> Config \<Rightarrow> error + Config" where
  "deploymentParametersFromFile x cfg =
     (if VMType cfg = vmTypeStandard x \<and> Mapping.is_empty (DeploymentParameters cfg) then
        bindE (readDeploymentParameters x deploymentParametersPath) (\<lambda>parameters.
        Inr (cfg\<lparr>DeploymentParameters := parameters\<rparr>))
      else Inr cfg)"

text \<open>Lines 366 to 368.\<close>

definition defaultMaxDeployments :: "externals \<Rightarrow> Config \<Rightarrow> Config" where
  "defaultMaxDeployments x cfg =
     (if MaxDeploymentsCount cfg = 0
      then cfg\<lparr>MaxDeploymentsCount := defaultMaxDeploymentsCount x\<rparr>
      else cfg)"

text \<open>\<open>BuildAzureConfig\<close> up to the call of the validator: lines 159 to 368.\<close>

definition resolve :: "externals \<Rightarrow> payload option \<Rightarrow> error + Config" where
  "resolve x configReader =
     bindE (populate x configReader) (\<lambda>cfg.
     bindE (switchesFromEnv x (alwaysFromEnv x cfg)) (\<lambda>cfg.
     bindE (rateLimitsOfConfig x cfg) (\<lambda>cfg.
     bindE (deploymentParametersFromFile x (defaultVMType x cfg)) (\<lambda>cfg.
     Inr (defaultMaxDeployments x cfg)))))"

text \<open>Lines 370 to 373: the validator decides.\<close>

definition BuildAzureConfig :: "externals \<Rightarrow> payload option \<Rightarrow> error + Config" where
  "BuildAzureConfig x configReader =
     bindE (resolve x configReader) (\<lambda>cfg.
     (case validate x cfg of
        Some err \<Rightarrow> Inl err
      | None \<Rightarrow> Inr cfg))"

section \<open>\<open>getAzureClientConfig\<close>: the retry policy\<close>

text \<open>
  \<open>retry.Backoff\<close> of \<open>sigs.k8s.io/cloud-provider-azure\<close>, with the four fields the file
  sets. A \<open>time.Duration\<close> is a number of nanoseconds in 64 bits.
\<close>

record Backoff =
  Steps :: int
  Factor :: gofloat
  Duration :: int
  Jitter :: gofloat

definition time_Second :: int where
  "time_Second = 1000000000"

definition wrap64 :: "int \<Rightarrow> int" where
  "wrap64 n = (n + 2 ^ 63) mod 2 ^ 64 - 2 ^ 63"

text \<open>
  Lines 478 and 484 to 491: the \<open>Backoff\<close> member of the client configuration that
  \<open>getAzureClientConfig\<close> returns (the other members copy fields and arguments).
\<close>

definition getAzureClientConfig_Backoff :: "Config \<Rightarrow> Backoff" where
  "getAzureClientConfig_Backoff cfg =
     (if CloudProviderBackoff cfg then
        \<lparr> Steps = CloudProviderBackoffRetries cfg,
          Factor = CloudProviderBackoffExponent cfg,
          Duration = wrap64 (CloudProviderBackoffDuration cfg * time_Second),
          Jitter = CloudProviderBackoffJitter cfg \<rparr>
      else \<lparr> Steps = 1, Factor = Num 0, Duration = 0, Jitter = Num 0 \<rparr>)"

section \<open>Example inputs\<close>

text \<open>
  An environment with no variable set, a metadata service that answers, no
  deployment parameters file, and the values the package gives its constants. No
  example sets a floating-point variable: the numeral 2.5 is all that \<open>ParseFloat\<close>
  reads here.
\<close>

definition exampleExternals :: externals where
  "exampleExternals =
     \<lparr> environ = Map.empty,
       instanceMetadata = (\<lambda>url. Inr ''subscription-from-metadata''),
       readDeploymentParameters = (\<lambda>path. Inl (ProviderFailure ''readDeploymentParameters'')),
       vmTypeVMSS = ''vmss'',
       vmTypeStandard = ''standard'',
       defaultMaxDeploymentsCount = 10,
       ParseFloat = (\<lambda>s. if s = ''2.5'' then Some (Num (5 / 2)) else None),
       float32 = (\<lambda>f. f),
       unicodeToLower = (\<lambda>s. s) \<rparr>"

text \<open>
  A payload's rate limits: nothing set for the default policy but the switch, a disk
  override that is switched off and carries a rate, a virtual machine override that is
  switched on and sets only its read rate, no other override.
\<close>

definition exampleRateLimits :: CloudProviderRateLimitConfig where
  "exampleRateLimits =
     \<lparr> RateLimitConfig =
         \<lparr> CloudProviderRateLimit = True, CloudProviderRateLimitQPS = Num 0,
           CloudProviderRateLimitBucket = 0, CloudProviderRateLimitQPSWrite = Num 0,
           CloudProviderRateLimitBucketWrite = 0 \<rparr>,
       InterfaceRateLimit = NilPtr,
       VirtualMachineRateLimit =
         ToObject \<lparr> CloudProviderRateLimit = True, CloudProviderRateLimitQPS = Num 50,
                    CloudProviderRateLimitBucket = 0, CloudProviderRateLimitQPSWrite = Num 0,
                    CloudProviderRateLimitBucketWrite = 0 \<rparr>,
       StorageAccountRateLimit = NilPtr,
       DiskRateLimit =
         ToObject \<lparr> CloudProviderRateLimit = False, CloudProviderRateLimitQPS = Num 99,
                    CloudProviderRateLimitBucket = 0, CloudProviderRateLimitQPSWrite = Num 0,
                    CloudProviderRateLimitBucketWrite = 0 \<rparr>,
       VirtualMachineScaleSetRateLimit = NilPtr,
       KubernetesServiceRateLimit = NilPtr \<rparr>"

text \<open>What \<open>initializeCloudProviderRateLimitConfig\<close> makes of it.\<close>

definition exampleRateLimitsResolved :: CloudProviderRateLimitConfig where
  "exampleRateLimitsResolved =
     \<lparr> RateLimitConfig =
         \<lparr> CloudProviderRateLimit = True, CloudProviderRateLimitQPS = Num 1,
           CloudProviderRateLimitBucket = 5, CloudProviderRateLimitQPSWrite = Num 1,
           CloudProviderRateLimitBucketWrite = 5 \<rparr>,
       InterfaceRateLimit = ToDefaults,
       VirtualMachineRateLimit =
         ToObject \<lparr> CloudProviderRateLimit = True, CloudProviderRateLimitQPS = Num 50,
                    CloudProviderRateLimitBucket = 5, CloudProviderRateLimitQPSWrite = Num 1,
                    CloudProviderRateLimitBucketWrite = 5 \<rparr>,
       StorageAccountRateLimit = ToDefaults,
       DiskRateLimit = ToObject disabledRateLimitConfig,
       VirtualMachineScaleSetRateLimit = ToDefaults,
       KubernetesServiceRateLimit = ToDefaults \<rparr>"

text \<open>
  Rate limits whose default policy sets its write rate and bucket itself (7 and 9,
  beside 1 and 5 for reading), with a virtual machine override that is switched on
  and sets only its read rate and bucket.
\<close>

definition explicitWriteRateLimits :: CloudProviderRateLimitConfig where
  "explicitWriteRateLimits =
     \<lparr> RateLimitConfig =
         \<lparr> CloudProviderRateLimit = True, CloudProviderRateLimitQPS = Num 1,
           CloudProviderRateLimitBucket = 5, CloudProviderRateLimitQPSWrite = Num 7,
           CloudProviderRateLimitBucketWrite = 9 \<rparr>,
       InterfaceRateLimit = NilPtr,
       VirtualMachineRateLimit =
         ToObject \<lparr> CloudProviderRateLimit = True, CloudProviderRateLimitQPS = Num 50,
                    CloudProviderRateLimitBucket = 60, CloudProviderRateLimitQPSWrite = Num 0,
                    CloudProviderRateLimitBucketWrite = 0 \<rparr>,
       StorageAccountRateLimit = NilPtr,
       DiskRateLimit = NilPtr,
       VirtualMachineScaleSetRateLimit = NilPtr,
       KubernetesServiceRateLimit = NilPtr \<rparr>"

text \<open>The rate limits of a configuration that sets none, once resolved.\<close>

definition resolvedDefaultRateLimits :: CloudProviderRateLimitConfig where
  "resolvedDefaultRateLimits =
     \<lparr> RateLimitConfig =
         \<lparr> CloudProviderRateLimit = False, CloudProviderRateLimitQPS = Num 1,
           CloudProviderRateLimitBucket = 5, CloudProviderRateLimitQPSWrite = Num 1,
           CloudProviderRateLimitBucketWrite = 5 \<rparr>,
       InterfaceRateLimit = ToDefaults,
       VirtualMachineRateLimit = ToDefaults,
       StorageAccountRateLimit = ToDefaults,
       DiskRateLimit = ToDefaults,
       VirtualMachineScaleSetRateLimit = ToDefaults,
       KubernetesServiceRateLimit = ToDefaults \<rparr>"

text \<open>
  A process configured by its environment alone: managed identity, backoff switched
  on, a resource group and three more strings written with blanks around them, a
  variable that is set to the empty string, and no \<open>ARM_SUBSCRIPTION_ID\<close>.
\<close>

definition environmentExternals :: externals where
  "environmentExternals =
     exampleExternals
       \<lparr> environ := map_of
           [(''ARM_RESOURCE_GROUP'', '' rg ''),
            (''ARM_USE_MANAGED_IDENTITY_EXTENSION'', ''true''),
            (''ARM_BASE_URL_FOR_AP_CLIENT'', '' https://arm.example ''),
            (''AZURE_FEDERATED_TOKEN_FILE'', '' /var/run/token ''),
            (''ARM_USER_ASSIGNED_IDENTITY_ID'', '' id ''),
            (''ENABLE_BACKOFF'', ''true''),
            (''AZURE_ENABLE_VMSS_FLEX'', [])] \<rparr>"

definition environmentResolved :: Config where
  "environmentResolved =
     emptyConfig
       \<lparr> CloudProviderRateLimitConfig := resolvedDefaultRateLimits,
         SubscriptionID := ''subscription-from-metadata'',
         ResourceGroup := ''rg'',
         VMType := ''vmss'',
         ARMBaseURLForAPClient := '' https://arm.example '',
         AADFederatedTokenFile := '' /var/run/token '',
         UseManagedIdentityExtension := True,
         UserAssignedIdentityID := '' id '',
         GetVmssSizeRefreshPeriod := 30,
         MaxDeploymentsCount := 10,
         CloudProviderBackoff := True,
         CloudProviderBackoffRetries := 6,
         CloudProviderBackoffExponent := Num (3 / 2),
         CloudProviderBackoffDuration := 5,
         CloudProviderBackoffJitter := Num 1 \<rparr>"


text \<open>An environment that switches both identity extensions on.\<close>

definition conflictingExternals :: externals where
  "conflictingExternals =
     exampleExternals
       \<lparr> environ := map_of
           [(''ARM_SUBSCRIPTION_ID'', ''sub''),
            (''ARM_RESOURCE_GROUP'', ''rg''),
            (''ARM_USE_MANAGED_IDENTITY_EXTENSION'', ''true''),
            (''ARM_USE_WORKLOAD_IDENTITY_EXTENSION'', ''true'')] \<rparr>"

text \<open>
  The payload
  \<^verbatim>\<open>{"subscriptionId": "sub", "resourceGroup": "rg", "useManagedIdentityExtension": true, "useWorkloadIdentityExtension": true}\<close>
  as \<open>json.Unmarshal\<close> decodes it.
\<close>

definition bothIdentitiesPayload :: Config where
  "bothIdentitiesPayload =
     emptyConfig
       \<lparr> SubscriptionID := ''sub'', ResourceGroup := ''rg'',
         UseManagedIdentityExtension := True, UseWorkloadIdentityExtension := True \<rparr>"

text \<open>
  The payload
  \<^verbatim>\<open>{"tenantId": "tenant", "subscriptionId": "sub", "resourceGroup": "rg", "authMethod": " cli"}\<close>.
\<close>

definition untrimmedAuthPayload :: Config where
  "untrimmedAuthPayload =
     emptyConfig
       \<lparr> TenantID := ''tenant'', SubscriptionID := ''sub'', ResourceGroup := ''rg'',
         AuthMethod := '' cli'' \<rparr>"

text \<open>
  The payload
  \<^verbatim>\<open>{"tenantId": "tenant", "subscriptionId": "sub", "resourceGroup": "rg", "aadClientId": "client", "aadClientSecret": "secret", "cloudProviderBackoff": true, "cloudProviderBackoffRetries": 3, "cloudProviderBackoffExponent": 2, "cloudProviderBackoffDuration": 10, "cloudProviderBackoffJitter": 0.5}\<close>
  and the configuration it resolves to; then the same payload without its four
  backoff numbers.
\<close>

definition backoffPayload :: Config where
  "backoffPayload =
     emptyConfig
       \<lparr> TenantID := ''tenant'', SubscriptionID := ''sub'', ResourceGroup := ''rg'',
         AADClientID := ''client'', AADClientSecret := ''secret'',
         CloudProviderBackoff := True, CloudProviderBackoffRetries := 3,
         CloudProviderBackoffExponent := Num 2, CloudProviderBackoffDuration := 10,
         CloudProviderBackoffJitter := Num (1 / 2) \<rparr>"

definition backoffResolved :: Config where
  "backoffResolved =
     backoffPayload
       \<lparr> CloudProviderRateLimitConfig := resolvedDefaultRateLimits,
         VMType := ''vmss'', MaxDeploymentsCount := 10 \<rparr>"

definition bareBackoffPayload :: Config where
  "bareBackoffPayload =
     emptyConfig
       \<lparr> TenantID := ''tenant'', SubscriptionID := ''sub'', ResourceGroup := ''rg'',
         AADClientID := ''client'', AADClientSecret := ''secret'',
         CloudProviderBackoff := True \<rparr>"

text \<open>
  The payload
  \<^verbatim>\<open>{"subscriptionId": "sub", "resourceGroup": "rg", "vmType": "standard", "useManagedIdentityExtension": true}\<close>:
  the standard VM type with neither deployment name nor parameters.
\<close>

definition noDeploymentPayload :: Config where
  "noDeploymentPayload =
     emptyConfig
       \<lparr> SubscriptionID := ''sub'', ResourceGroup := ''rg'', VMType := ''standard'',
         UseManagedIdentityExtension := True \<rparr>"

text \<open>
  The payload
  \<^verbatim>\<open>{"subscriptionId": "sub", "resourceGroup": "rg", "vmType": "standard", "deployment": "cluster", "useManagedIdentityExtension": true}\<close>,
  the configuration it resolves to, and a parameters file that holds no parameter.
\<close>

definition deploymentPayload :: Config where
  "deploymentPayload =
     emptyConfig
       \<lparr> SubscriptionID := ''sub'', ResourceGroup := ''rg'', VMType := ''standard'',
         UseManagedIdentityExtension := True, Deployment := ''cluster'' \<rparr>"

definition deploymentResolved :: Config where
  "deploymentResolved =
     deploymentPayload
       \<lparr> CloudProviderRateLimitConfig := resolvedDefaultRateLimits,
         MaxDeploymentsCount := 10 \<rparr>"

definition emptyParametersExternals :: externals where
  "emptyParametersExternals =
     exampleExternals \<lparr> readDeploymentParameters := (\<lambda>path. Inr Mapping.empty) \<rparr>"

text \<open>
  A parameters file that holds one parameter, and the configuration the same payload
  resolves to with it.
\<close>

definition filledParametersExternals :: externals where
  "filledParametersExternals =
     exampleExternals
       \<lparr> readDeploymentParameters :=
           (\<lambda>path. Inr (Mapping.update ''location'' (JString ''westus'') Mapping.empty)) \<rparr>"

definition filledParametersResolved :: Config where
  "filledParametersResolved =
     deploymentResolved
       \<lparr> DeploymentParameters := Mapping.update ''location'' (JString ''westus'') Mapping.empty \<rparr>"

text \<open>
  A configuration that uses managed identity and has neither tenant nor client id, an
  authentication method the validator does not know, and backoff switched on without
  retries.
\<close>

definition managedIdentityConfig :: Config where
  "managedIdentityConfig =
     emptyConfig
       \<lparr> ResourceGroup := ''rg'', SubscriptionID := ''sub'', VMType := ''vmss'',
         AuthMethod := ''token'', UseManagedIdentityExtension := True,
         CloudProviderBackoff := True \<rparr>"

text \<open>The five backoff fields of a configuration.\<close>

definition backoffFields :: "Config \<Rightarrow> bool \<times> int \<times> gofloat \<times> int \<times> gofloat" where
  "backoffFields cfg =
     (CloudProviderBackoff cfg, CloudProviderBackoffRetries cfg,
      CloudProviderBackoffExponent cfg, CloudProviderBackoffDuration cfg,
      CloudProviderBackoffJitter cfg)"

text \<open>
  A string with no white space rune at its front and none at its back, and the twelve
  strings that \<open>TrimSpace\<close> assigns and nothing later changes (the thirteenth, the VM
  type, gets its default afterwards).
\<close>

definition trimmed :: "string \<Rightarrow> bool" where
  "trimmed s = (leading whiteSpace s = 0 \<and> leading (map rev whiteSpace) (rev s) = 0)"

definition trimmedStrings :: "Config \<Rightarrow> string list" where
  "trimmedStrings cfg =
     [Cloud cfg, Location cfg, TenantID cfg, SubscriptionID cfg, ClusterName cfg,
      ResourceGroup cfg, ClusterResourceGroup cfg, AADClientID cfg, AADClientSecret cfg,
      AADClientCertPath cfg, AADClientCertPassword cfg, Deployment cfg]"




section \<open>Basic facts\<close>

lemmas rate_limit_defs =
  initializeCloudProviderRateLimitConfig_def assignDefaults_def assignReadQPS_def
  assignReadBucket_def assignWriteQPS_def assignWriteBucket_def applyOverrides_def
  overrideDefaultRateLimitConfig_def applyDefaultValues_def disabledRateLimitConfig_def
  float_is_zero_def fromEnv_def Getenv_def bindE_def
  rateLimitReadQPSEnvVar_def rateLimitReadBucketsEnvVar_def rateLimitWriteQPSEnvVar_def
  rateLimitWriteBucketsEnvVar_def rateLimitQPSDefault_def rateLimitBucketDefault_def

lemmas library_defs =
  Getenv_def LookupEnv_def ParseBool_def ParseInt_def ParseUint_def isDigit_def Atoi_def
  strings_TrimSpace_def whiteSpace_def leading_def ToLower_def asciiLower_def

lemmas constant_defs =
  deploymentParametersPath_def imdsServerURL_def backoffRetriesDefault_def
  backoffExponentDefault_def backoffDurationDefault_def backoffJitterDefault_def
  VmssSizeRefreshPeriodDefault_def authMethodPrincipal_def authMethodCLI_def
  dynamicInstanceListDefault_def enableVmssFlexDefault_def

lemmas build_defs =
  BuildAzureConfig_def resolve_def populate_def identityFromEnv_def tuningFromEnv_def
  backoffFromEnv_def alwaysFromEnv_def switchesFromEnv_def rateLimitsOfConfig_def
  defaultVMType_def deploymentParametersFromFile_def defaultMaxDeployments_def
  getSubscriptionIdFromInstanceMetadata_def TrimSpace_def validate_def emptyConfig_def

lemma bindE_Inr: "bindE (Inr a) f = f a"
  by (simp add: bindE_def)

lemma bindE_Inr_iff: "bindE m f = Inr b \<longleftrightarrow> (\<exists>a. m = Inr a \<and> f a = Inr b)"
  by (cases m) (simp_all add: bindE_def)

lemma fromEnv_unset: "Getenv x key = [] \<Longrightarrow> fromEnv x key parse otherwise = Inr otherwise"
  by (simp add: fromEnv_def)

lemma fromEnv_parsed:
  assumes "parse (Getenv x key) = Some a" and "parse [] = None"
  shows "fromEnv x key parse otherwise = Inr a"
  using assms by (cases "Getenv x key = []") (simp_all add: fromEnv_def)

lemma example_initialize:
  "initializeCloudProviderRateLimitConfig exampleExternals (Some exampleRateLimits) =
     Inr (Some exampleRateLimitsResolved)"
  by (simp add: rate_limit_defs exampleExternals_def exampleRateLimits_def
      exampleRateLimitsResolved_def)

section \<open>The rate limit resolver\<close>

lemma initialize_Some_iff:
  "initializeCloudProviderRateLimitConfig x (Some c) = Inr r \<longleftrightarrow>
     (\<exists>d. assignDefaults x (RateLimitConfig c) = Inr d \<and>
          r = Some (applyOverrides (c\<lparr>RateLimitConfig := d\<rparr>)))"
  by (auto simp: initializeCloudProviderRateLimitConfig_def bindE_Inr_iff)

lemma applyOverrides_defaults: "RateLimitConfig (applyOverrides c) = RateLimitConfig c"
  by (simp add: applyOverrides_def)

lemma rateLimitOf_applyOverrides:
  "rateLimitOf k (applyOverrides c) =
     overrideDefaultRateLimitConfig (RateLimitConfig c) (rateLimitOf k c)"
  by (cases k) (simp_all add: applyOverrides_def)

lemma rateLimitOf_defaults_update: "rateLimitOf k (c\<lparr>RateLimitConfig := d\<rparr>) = rateLimitOf k c"
  by (cases k) simp_all

text \<open>Each of the four steps leaves the other three fields alone.\<close>

lemma assignReadQPS_keeps:
  assumes "assignReadQPS x r = Inr r'"
  shows "CloudProviderRateLimitQPSWrite r' = CloudProviderRateLimitQPSWrite r"
    and "CloudProviderRateLimitBucket r' = CloudProviderRateLimitBucket r"
    and "CloudProviderRateLimitBucketWrite r' = CloudProviderRateLimitBucketWrite r"
  using assms by (auto simp: assignReadQPS_def bindE_Inr_iff split: if_splits)

lemma assignReadBucket_keeps:
  assumes "assignReadBucket x r = Inr r'"
  shows "CloudProviderRateLimitQPSWrite r' = CloudProviderRateLimitQPSWrite r"
    and "CloudProviderRateLimitQPS r' = CloudProviderRateLimitQPS r"
    and "CloudProviderRateLimitBucketWrite r' = CloudProviderRateLimitBucketWrite r"
  using assms by (auto simp: assignReadBucket_def bindE_Inr_iff split: if_splits)

lemma assignWriteQPS_keeps:
  assumes "assignWriteQPS x r = Inr r'"
  shows "CloudProviderRateLimitQPS r' = CloudProviderRateLimitQPS r"
    and "CloudProviderRateLimitBucket r' = CloudProviderRateLimitBucket r"
    and "CloudProviderRateLimitBucketWrite r' = CloudProviderRateLimitBucketWrite r"
  using assms by (auto simp: assignWriteQPS_def bindE_Inr_iff split: if_splits)

lemma assignWriteBucket_keeps:
  assumes "assignWriteBucket x r = Inr r'"
  shows "CloudProviderRateLimitQPS r' = CloudProviderRateLimitQPS r"
    and "CloudProviderRateLimitBucket r' = CloudProviderRateLimitBucket r"
    and "CloudProviderRateLimitQPSWrite r' = CloudProviderRateLimitQPSWrite r"
  using assms by (auto simp: assignWriteBucket_def bindE_Inr_iff split: if_splits)

lemma assignWriteQPS_inherits:
  assumes "assignWriteQPS x r = Inr r'"
    and "float_is_zero (CloudProviderRateLimitQPSWrite r)"
    and "Getenv x rateLimitWriteQPSEnvVar = []"
  shows "CloudProviderRateLimitQPSWrite r' = CloudProviderRateLimitQPS r"
  using assms by (auto simp: assignWriteQPS_def bindE_Inr_iff fromEnv_unset)

lemma assignWriteBucket_inherits:
  assumes "assignWriteBucket x r = Inr r'"
    and "CloudProviderRateLimitBucketWrite r = 0"
    and "Getenv x rateLimitWriteBucketsEnvVar = []"
  shows "CloudProviderRateLimitBucketWrite r' = CloudProviderRateLimitBucket r"
  using assms by (auto simp: assignWriteBucket_def bindE_Inr_iff fromEnv_unset)

lemma assignDefaults_steps:
  assumes "assignDefaults x r = Inr r'"
  obtains r1 r2 r3 where "assignReadQPS x r = Inr r1" "assignReadBucket x r1 = Inr r2"
    "assignWriteQPS x r2 = Inr r3" "assignWriteBucket x r3 = Inr r'"
  using assms unfolding assignDefaults_def bindE_Inr_iff by blast

lemma assignDefaults_write_qps:
  assumes "assignDefaults x r = Inr r'"
    and z: "float_is_zero (CloudProviderRateLimitQPSWrite r)"
    and e: "Getenv x rateLimitWriteQPSEnvVar = []"
  shows "CloudProviderRateLimitQPSWrite r' = CloudProviderRateLimitQPS r'"
proof -
  from assms(1) obtain r1 r2 r3 where s: "assignReadQPS x r = Inr r1"
    "assignReadBucket x r1 = Inr r2" "assignWriteQPS x r2 = Inr r3"
    "assignWriteBucket x r3 = Inr r'"
    by (rule assignDefaults_steps)
  have "float_is_zero (CloudProviderRateLimitQPSWrite r2)"
    using z assignReadQPS_keeps(1)[OF s(1)] assignReadBucket_keeps(1)[OF s(2)] by simp
  then have "CloudProviderRateLimitQPSWrite r3 = CloudProviderRateLimitQPS r2"
    using assignWriteQPS_inherits[OF s(3) _ e] by simp
  then show ?thesis
    using assignWriteQPS_keeps(1)[OF s(3)] assignWriteBucket_keeps(1,3)[OF s(4)] by simp
qed

lemma assignDefaults_write_bucket:
  assumes "assignDefaults x r = Inr r'"
    and z: "CloudProviderRateLimitBucketWrite r = 0"
    and e: "Getenv x rateLimitWriteBucketsEnvVar = []"
  shows "CloudProviderRateLimitBucketWrite r' = CloudProviderRateLimitBucket r'"
proof -
  from assms(1) obtain r1 r2 r3 where s: "assignReadQPS x r = Inr r1"
    "assignReadBucket x r1 = Inr r2" "assignWriteQPS x r2 = Inr r3"
    "assignWriteBucket x r3 = Inr r'"
    by (rule assignDefaults_steps)
  have "CloudProviderRateLimitBucketWrite r3 = 0"
    using z assignReadQPS_keeps(3)[OF s(1)] assignReadBucket_keeps(3)[OF s(2)]
      assignWriteQPS_keeps(3)[OF s(3)] by simp
  then have "CloudProviderRateLimitBucketWrite r' = CloudProviderRateLimitBucket r3"
    using assignWriteBucket_inherits[OF s(4) _ e] by simp
  then show ?thesis
    using assignWriteBucket_keeps(2)[OF s(4)] by simp
qed

lemma applyDefaultValues_write:
  "float_is_zero (CloudProviderRateLimitQPSWrite c) \<Longrightarrow>
     CloudProviderRateLimitQPSWrite (applyDefaultValues d c) = CloudProviderRateLimitQPSWrite d"
  "CloudProviderRateLimitBucketWrite c = 0 \<Longrightarrow>
     CloudProviderRateLimitBucketWrite (applyDefaultValues d c) = CloudProviderRateLimitBucketWrite d"
  by (simp_all add: applyDefaultValues_def Let_def)

text \<open>
  C1. An override object whose switch is off resolves to a policy with the switch off
  and every number zero, whatever rates and buckets the object carries. The object is
  what the pointer \<open>p\<close> points to: an object of its own, or the embedded default policy.
\<close>

theorem disabled_override_is_zeroed:
  assumes "deref config p = Some c"
    and "\<not> CloudProviderRateLimit c"
  shows "overrideDefaultRateLimitConfig (RateLimitConfig config) p =
           ToObject \<lparr> CloudProviderRateLimit = False, CloudProviderRateLimitQPS = Num 0,
                      CloudProviderRateLimitBucket = 0, CloudProviderRateLimitQPSWrite = Num 0,
                      CloudProviderRateLimitBucketWrite = 0 \<rparr>"
  using assms
  by (cases p)
    (simp_all add: deref_def overrideDefaultRateLimitConfig_def disabledRateLimitConfig_def)

theorem disabled_override_is_zeroed_witness:
  "deref exampleRateLimits (DiskRateLimit exampleRateLimits) =
     Some \<lparr> CloudProviderRateLimit = False, CloudProviderRateLimitQPS = Num 99,
            CloudProviderRateLimitBucket = 0, CloudProviderRateLimitQPSWrite = Num 0,
            CloudProviderRateLimitBucketWrite = 0 \<rparr>
   \<and> overrideDefaultRateLimitConfig (RateLimitConfig exampleRateLimits)
         (DiskRateLimit exampleRateLimits) =
       ToObject \<lparr> CloudProviderRateLimit = False, CloudProviderRateLimitQPS = Num 0,
                  CloudProviderRateLimitBucket = 0, CloudProviderRateLimitQPSWrite = Num 0,
                  CloudProviderRateLimitBucketWrite = 0 \<rparr>"
proof -
  have d: "deref exampleRateLimits (DiskRateLimit exampleRateLimits) =
     Some \<lparr> CloudProviderRateLimit = False, CloudProviderRateLimitQPS = Num 99,
            CloudProviderRateLimitBucket = 0, CloudProviderRateLimitQPSWrite = Num 0,
            CloudProviderRateLimitBucketWrite = 0 \<rparr>"
    by (simp add: deref_def exampleRateLimits_def)
  show ?thesis
    using d disabled_override_is_zeroed [OF d] by simp
qed

text \<open>
  C5, as the code has it. When \<open>initializeCloudProviderRateLimitConfig\<close> returns without
  an error: a write rate of the default policy that was zero, with
  \<open>RATE_LIMIT_WRITE_QPS\<close> empty or not set, is the read rate of the resolved default
  policy, and likewise the write bucket with \<open>RATE_LIMIT_WRITE_BUCKETS\<close>; an override
  that is switched on gets, for a write rate or write bucket that was zero, the write
  rate or write bucket of the resolved default policy (not a read value, neither its
  own nor the default policy's).
\<close>

theorem write_limits_inherit:
  assumes "initializeCloudProviderRateLimitConfig x (Some config) = Inr (Some config')"
  shows "(float_is_zero (CloudProviderRateLimitQPSWrite (RateLimitConfig config))
            \<and> Getenv x rateLimitWriteQPSEnvVar = []
          \<longrightarrow> CloudProviderRateLimitQPSWrite (RateLimitConfig config') =
                CloudProviderRateLimitQPS (RateLimitConfig config'))
       \<and> (CloudProviderRateLimitBucketWrite (RateLimitConfig config) = 0
            \<and> Getenv x rateLimitWriteBucketsEnvVar = []
          \<longrightarrow> CloudProviderRateLimitBucketWrite (RateLimitConfig config') =
                CloudProviderRateLimitBucket (RateLimitConfig config'))
       \<and> (\<forall>kind c. rateLimitOf kind config = ToObject c \<and> CloudProviderRateLimit c
          \<longrightarrow> (\<exists>c'. rateLimitOf kind config' = ToObject c'
                 \<and> (float_is_zero (CloudProviderRateLimitQPSWrite c)
                    \<longrightarrow> CloudProviderRateLimitQPSWrite c' =
                          CloudProviderRateLimitQPSWrite (RateLimitConfig config'))
                 \<and> (CloudProviderRateLimitBucketWrite c = 0
                    \<longrightarrow> CloudProviderRateLimitBucketWrite c' =
                          CloudProviderRateLimitBucketWrite (RateLimitConfig config'))))"
proof -
  from assms obtain d where d: "assignDefaults x (RateLimitConfig config) = Inr d"
    and c': "config' = applyOverrides (config\<lparr>RateLimitConfig := d\<rparr>)"
    by (auto simp: initialize_Some_iff)
  have g: "RateLimitConfig config' = d"
    by (simp add: c' applyOverrides_defaults)
  have q: "float_is_zero (CloudProviderRateLimitQPSWrite (RateLimitConfig config))
            \<and> Getenv x rateLimitWriteQPSEnvVar = []
          \<longrightarrow> CloudProviderRateLimitQPSWrite d = CloudProviderRateLimitQPS d"
    using assignDefaults_write_qps [OF d] by blast
  have b: "CloudProviderRateLimitBucketWrite (RateLimitConfig config) = 0
            \<and> Getenv x rateLimitWriteBucketsEnvVar = []
          \<longrightarrow> CloudProviderRateLimitBucketWrite d = CloudProviderRateLimitBucket d"
    using assignDefaults_write_bucket [OF d] by blast
  have o: "\<exists>c'. rateLimitOf kind config' = ToObject c'
                 \<and> (float_is_zero (CloudProviderRateLimitQPSWrite c)
                    \<longrightarrow> CloudProviderRateLimitQPSWrite c' = CloudProviderRateLimitQPSWrite d)
                 \<and> (CloudProviderRateLimitBucketWrite c = 0
                    \<longrightarrow> CloudProviderRateLimitBucketWrite c' = CloudProviderRateLimitBucketWrite d)"
    if "rateLimitOf kind config = ToObject c" and "CloudProviderRateLimit c" for kind c
  proof -
    have "rateLimitOf kind config' = ToObject (applyDefaultValues d c)"
      using that
      by (simp add: c' rateLimitOf_applyOverrides rateLimitOf_defaults_update
          overrideDefaultRateLimitConfig_def)
    then show ?thesis
      by (simp add: applyDefaultValues_write)
  qed
  show ?thesis
    unfolding g using q b o by blast
qed

theorem write_limits_inherit_witness:
  "initializeCloudProviderRateLimitConfig exampleExternals (Some exampleRateLimits) =
     Inr (Some exampleRateLimitsResolved)
   \<and> float_is_zero (CloudProviderRateLimitQPSWrite (RateLimitConfig exampleRateLimits))
   \<and> Getenv exampleExternals rateLimitWriteQPSEnvVar = []
   \<and> CloudProviderRateLimitBucketWrite (RateLimitConfig exampleRateLimits) = 0
   \<and> Getenv exampleExternals rateLimitWriteBucketsEnvVar = []
   \<and> CloudProviderRateLimitQPSWrite (RateLimitConfig exampleRateLimitsResolved) =
       CloudProviderRateLimitQPS (RateLimitConfig exampleRateLimitsResolved)
   \<and> CloudProviderRateLimitBucketWrite (RateLimitConfig exampleRateLimitsResolved) =
       CloudProviderRateLimitBucket (RateLimitConfig exampleRateLimitsResolved)
   \<and> rateLimitOf VirtualMachine exampleRateLimits =
       ToObject \<lparr> CloudProviderRateLimit = True, CloudProviderRateLimitQPS = Num 50,
                  CloudProviderRateLimitBucket = 0, CloudProviderRateLimitQPSWrite = Num 0,
                  CloudProviderRateLimitBucketWrite = 0 \<rparr>
   \<and> rateLimitOf VirtualMachine exampleRateLimitsResolved =
       ToObject \<lparr> CloudProviderRateLimit = True, CloudProviderRateLimitQPS = Num 50,
                  CloudProviderRateLimitBucket = 5, CloudProviderRateLimitQPSWrite = Num 1,
                  CloudProviderRateLimitBucketWrite = 5 \<rparr>"
proof -
  have h: "float_is_zero (CloudProviderRateLimitQPSWrite (RateLimitConfig exampleRateLimits))"
    "Getenv exampleExternals rateLimitWriteQPSEnvVar = []"
    "CloudProviderRateLimitBucketWrite (RateLimitConfig exampleRateLimits) = 0"
    "Getenv exampleExternals rateLimitWriteBucketsEnvVar = []"
    by (simp_all add: exampleRateLimits_def exampleExternals_def float_is_zero_def Getenv_def)
  have v: "rateLimitOf VirtualMachine exampleRateLimits =
       ToObject \<lparr> CloudProviderRateLimit = True, CloudProviderRateLimitQPS = Num 50,
                  CloudProviderRateLimitBucket = 0, CloudProviderRateLimitQPSWrite = Num 0,
                  CloudProviderRateLimitBucketWrite = 0 \<rparr>"
    "rateLimitOf VirtualMachine exampleRateLimitsResolved =
       ToObject \<lparr> CloudProviderRateLimit = True, CloudProviderRateLimitQPS = Num 50,
                  CloudProviderRateLimitBucket = 5, CloudProviderRateLimitQPSWrite = Num 1,
                  CloudProviderRateLimitBucketWrite = 5 \<rparr>"
    by (simp_all add: exampleRateLimits_def exampleRateLimitsResolved_def)
  show ?thesis
    using write_limits_inherit [OF example_initialize] h v example_initialize by simp
qed

text \<open>
  The claim C5 as the specification states it fails for an override: with a default
  policy that sets its write rate 7 and write bucket 9 beside the read rate 1 and read
  bucket 5, the virtual machine override that is switched on with read rate 50, read
  bucket 60 and no write value resolves to the write rate 7 and the write bucket 9.
\<close>

theorem write_limits_inherit_counterexample:
  "effectivePolicy exampleExternals explicitWriteRateLimits VirtualMachine =
     Some \<lparr> CloudProviderRateLimit = True, CloudProviderRateLimitQPS = Num 50,
            CloudProviderRateLimitBucket = 60, CloudProviderRateLimitQPSWrite = Num 7,
            CloudProviderRateLimitBucketWrite = 9 \<rparr>"
  by (simp add: effectivePolicy_def rate_limit_defs deref_def exampleExternals_def
      explicitWriteRateLimits_def)

text \<open>
  C6. A resource kind for which no override object was supplied points, after
  resolution, to the default policy embedded in the same structure: its effective
  policy is the resolved default policy itself.
\<close>

theorem absent_override_is_default:
  assumes i: "initializeCloudProviderRateLimitConfig x (Some config) = Inr (Some config')"
    and n: "rateLimitOf kind config = NilPtr"
  shows "rateLimitOf kind config' = ToDefaults
       \<and> effectivePolicy x config kind = Some (RateLimitConfig config')"
proof -
  from i obtain d where c': "config' = applyOverrides (config\<lparr>RateLimitConfig := d\<rparr>)"
    by (auto simp: initialize_Some_iff)
  have p: "rateLimitOf kind config' = ToDefaults"
    using n
    by (simp add: c' rateLimitOf_applyOverrides rateLimitOf_defaults_update
        overrideDefaultRateLimitConfig_def)
  then show ?thesis
    by (simp add: effectivePolicy_def i deref_def)
qed

theorem absent_override_is_default_witness:
  "initializeCloudProviderRateLimitConfig exampleExternals (Some exampleRateLimits) =
     Inr (Some exampleRateLimitsResolved)
   \<and> rateLimitOf Interface exampleRateLimits = NilPtr
   \<and> rateLimitOf Interface exampleRateLimitsResolved = ToDefaults
   \<and> effectivePolicy exampleExternals exampleRateLimits Interface =
       Some \<lparr> CloudProviderRateLimit = True, CloudProviderRateLimitQPS = Num 1,
              CloudProviderRateLimitBucket = 5, CloudProviderRateLimitQPSWrite = Num 1,
              CloudProviderRateLimitBucketWrite = 5 \<rparr>"
proof -
  have n: "rateLimitOf Interface exampleRateLimits = NilPtr"
    by (simp add: exampleRateLimits_def)
  have r: "RateLimitConfig exampleRateLimitsResolved =
       \<lparr> CloudProviderRateLimit = True, CloudProviderRateLimitQPS = Num 1,
         CloudProviderRateLimitBucket = 5, CloudProviderRateLimitQPSWrite = Num 1,
         CloudProviderRateLimitBucketWrite = 5 \<rparr>"
    by (simp add: exampleRateLimitsResolved_def)
  show ?thesis
    using absent_override_is_default [OF example_initialize n] example_initialize n r by simp
qed

text \<open>
  C10. The flag of an override is a \<open>bool\<close>: an object that leaves the member out
  decodes to the same structure as one that sets it to \<open>false\<close>. The resolver treats the
  two alike, and both resolve to the policy with the switch off and every number
  zero, whatever rates and buckets the object supplies.
\<close>

theorem omitted_flag_disables:
  assumes "cloudProviderRateLimit obj = None"
  shows "overrideDefaultRateLimitConfig defaults (ToObject (unmarshalRateLimitConfig obj)) =
           ToObject disabledRateLimitConfig
       \<and> overrideDefaultRateLimitConfig defaults (ToObject (unmarshalRateLimitConfig obj)) =
           overrideDefaultRateLimitConfig defaults
             (ToObject (unmarshalRateLimitConfig (obj\<lparr>cloudProviderRateLimit := Some False\<rparr>)))"
  using assms
  by (simp add: overrideDefaultRateLimitConfig_def unmarshalRateLimitConfig_def)

theorem omitted_flag_disables_witness:
  "overrideDefaultRateLimitConfig (RateLimitConfig exampleRateLimitsResolved)
     (ToObject (unmarshalRateLimitConfig
        \<lparr> cloudProviderRateLimit = None, cloudProviderRateLimitQPS = Some (Num 99),
          cloudProviderRateLimitBucket = Some 40, cloudProviderRateLimitQPSWrite = None,
          cloudProviderRateLimitBucketWrite = None \<rparr>)) =
   ToObject \<lparr> CloudProviderRateLimit = False, CloudProviderRateLimitQPS = Num 0,
              CloudProviderRateLimitBucket = 0, CloudProviderRateLimitQPSWrite = Num 0,
              CloudProviderRateLimitBucketWrite = 0 \<rparr>"
  using omitted_flag_disables [of
      "\<lparr> cloudProviderRateLimit = None, cloudProviderRateLimitQPS = Some (Num 99),
         cloudProviderRateLimitBucket = Some 40, cloudProviderRateLimitQPSWrite = None,
         cloudProviderRateLimitBucketWrite = None \<rparr>"
      "RateLimitConfig exampleRateLimitsResolved"]
  by (simp add: disabledRateLimitConfig_def)

section \<open>Runs of \<open>BuildAzureConfig\<close>\<close>

lemma environment_build: "BuildAzureConfig environmentExternals None = Inr environmentResolved"
  by (simp add: build_defs rate_limit_defs library_defs constant_defs environmentExternals_def
      environmentResolved_def exampleExternals_def resolvedDefaultRateLimits_def)


lemma conflicting_build: "BuildAzureConfig conflictingExternals None = Inl ConflictingIdentity"
  by (simp add: build_defs library_defs constant_defs fromEnv_def bindE_def
      conflictingExternals_def exampleExternals_def)

lemma both_identities_build:
  "BuildAzureConfig exampleExternals (Some (Decoded bothIdentitiesPayload)) =
     Inr (bothIdentitiesPayload
           \<lparr> CloudProviderRateLimitConfig := resolvedDefaultRateLimits,
             VMType := ''vmss'', MaxDeploymentsCount := 10 \<rparr>)"
  by (simp add: build_defs rate_limit_defs library_defs constant_defs bothIdentitiesPayload_def
      exampleExternals_def resolvedDefaultRateLimits_def)

lemma untrimmed_auth_build:
  "BuildAzureConfig exampleExternals (Some (Decoded untrimmedAuthPayload)) =
     Inl (ValidationFailed ''unsupported authorization method:  cli'')"
  by (simp add: build_defs rate_limit_defs library_defs constant_defs untrimmedAuthPayload_def
      exampleExternals_def)

lemma backoff_payload_build:
  "BuildAzureConfig exampleExternals (Some (Decoded backoffPayload)) = Inr backoffResolved"
  by (simp add: build_defs rate_limit_defs library_defs constant_defs backoffPayload_def
      backoffResolved_def exampleExternals_def resolvedDefaultRateLimits_def)

lemma bare_backoff_payload_build:
  "BuildAzureConfig exampleExternals (Some (Decoded bareBackoffPayload)) =
     Inl (ValidationFailed ''Cloud provider backoff is enabled but retries are not set'')"
  by (simp add: build_defs rate_limit_defs library_defs constant_defs bareBackoffPayload_def
      exampleExternals_def)

text \<open>The branch that reads the environment refuses the two identity extensions together.\<close>

lemma identity_conflict_from_environment:
  assumes "getSubscriptionIdFromInstanceMetadata x = Inr subscriptionID"
    and "ParseBool (Getenv x ''ARM_USE_MANAGED_IDENTITY_EXTENSION'') = Some True"
    and "ParseBool (Getenv x ''ARM_USE_WORKLOAD_IDENTITY_EXTENSION'') = Some True"
  shows "BuildAzureConfig x None = Inl ConflictingIdentity"
proof -
  have p: "ParseBool [] = None"
    by (simp add: ParseBool_def)
  have "identityFromEnv x = Inl ConflictingIdentity"
    unfolding identityFromEnv_def
    by (simp add: assms(1) fromEnv_parsed [OF assms(2) p] fromEnv_parsed [OF assms(3) p]
        bindE_Inr Let_def)
  then show ?thesis
    by (simp add: BuildAzureConfig_def resolve_def populate_def bindE_def)
qed


lemma filled_parameters_build:
  "BuildAzureConfig filledParametersExternals (Some (Decoded deploymentPayload)) =
     Inr filledParametersResolved"
  by (simp add: build_defs rate_limit_defs library_defs constant_defs deploymentPayload_def
      deploymentResolved_def filledParametersExternals_def filledParametersResolved_def
      exampleExternals_def resolvedDefaultRateLimits_def)

lemma no_deployment_build:
  "BuildAzureConfig exampleExternals (Some (Decoded noDeploymentPayload)) =
     Inl (ProviderFailure ''readDeploymentParameters'')"
  by (simp add: build_defs rate_limit_defs library_defs constant_defs noDeploymentPayload_def
      exampleExternals_def)

lemma deployment_resolve:
  "resolve emptyParametersExternals (Some (Decoded deploymentPayload)) = Inr deploymentResolved"
  by (simp add: build_defs rate_limit_defs library_defs constant_defs deploymentPayload_def
      deploymentResolved_def emptyParametersExternals_def exampleExternals_def
      resolvedDefaultRateLimits_def)

section \<open>The validator\<close>

text \<open>
  C8. With a resource group, a subscription id, the deployment name and parameters
  where the VM type asks for them, and the managed identity extension switched on,
  the validator returns no error, whatever the tenant id, the client id, the
  authentication method and the backoff retries are.
\<close>

theorem managed_identity_validates:
  assumes "ResourceGroup cfg \<noteq> []"
    and "SubscriptionID cfg \<noteq> []"
    and "VMType cfg = vmTypeStandard x \<longrightarrow>
           Deployment cfg \<noteq> [] \<and> \<not> Mapping.is_empty (DeploymentParameters cfg)"
    and "UseManagedIdentityExtension cfg"
  shows "validate x cfg = None"
  using assms by (auto simp: validate_def)

theorem managed_identity_validates_witness:
  "ResourceGroup managedIdentityConfig \<noteq> [] \<and> SubscriptionID managedIdentityConfig \<noteq> []
   \<and> VMType managedIdentityConfig \<noteq> vmTypeStandard exampleExternals
   \<and> UseManagedIdentityExtension managedIdentityConfig
   \<and> TenantID managedIdentityConfig = [] \<and> AADClientID managedIdentityConfig = []
   \<and> AuthMethod managedIdentityConfig = ''token''
   \<and> CloudProviderBackoff managedIdentityConfig
   \<and> CloudProviderBackoffRetries managedIdentityConfig = 0
   \<and> validate exampleExternals managedIdentityConfig = None"
proof -
  have h: "ResourceGroup managedIdentityConfig \<noteq> []"
    "SubscriptionID managedIdentityConfig \<noteq> []"
    "VMType managedIdentityConfig \<noteq> vmTypeStandard exampleExternals"
    "UseManagedIdentityExtension managedIdentityConfig"
    "TenantID managedIdentityConfig = []" "AADClientID managedIdentityConfig = []"
    "AuthMethod managedIdentityConfig = ''token''"
    "CloudProviderBackoff managedIdentityConfig"
    "CloudProviderBackoffRetries managedIdentityConfig = 0"
    by (simp_all add: managedIdentityConfig_def emptyConfig_def exampleExternals_def)
  show ?thesis
    using managed_identity_validates [of managedIdentityConfig exampleExternals] h by simp
qed

lemma deploymentParametersFromFile_empty:
  assumes "deploymentParametersFromFile x c = Inr cfg"
    and "VMType cfg = vmTypeStandard x"
    and "Mapping.is_empty (DeploymentParameters cfg)"
  shows "readDeploymentParameters x deploymentParametersPath = Inr (DeploymentParameters cfg)"
  using assms
  by (auto simp: deploymentParametersFromFile_def bindE_Inr_iff split: if_splits)

lemma defaultMaxDeployments_keeps:
  "VMType (defaultMaxDeployments x c) = VMType c"
  "DeploymentParameters (defaultMaxDeployments x c) = DeploymentParameters c"
  by (simp_all add: defaultMaxDeployments_def)

lemma resolve_parameters:
  assumes "resolve x configReader = Inr cfg"
    and "VMType cfg = vmTypeStandard x"
    and "Mapping.is_empty (DeploymentParameters cfg)"
  shows "readDeploymentParameters x deploymentParametersPath = Inr (DeploymentParameters cfg)"
proof -
  from assms(1) obtain c c' where d: "deploymentParametersFromFile x c = Inr c'"
    and cfg: "cfg = defaultMaxDeployments x c'"
    unfolding resolve_def bindE_Inr_iff by blast
  show ?thesis
    using deploymentParametersFromFile_empty [OF d] assms(2,3)
    by (simp add: cfg defaultMaxDeployments_keeps)
qed

text \<open>
  A configuration of the standard VM type that \<open>BuildAzureConfig\<close> returns has a
  deployment name and deployment parameters.
\<close>

lemma standard_config_has_deployment:
  assumes "BuildAzureConfig x configReader = Inr cfg"
    and "VMType cfg = vmTypeStandard x"
  shows "Deployment cfg \<noteq> [] \<and> \<not> Mapping.is_empty (DeploymentParameters cfg)"
proof -
  from assms(1) have "validate x cfg = None"
    by (auto simp: BuildAzureConfig_def bindE_Inr_iff split: option.splits)
  with assms(2) show ?thesis
    by (auto simp: validate_def split: if_splits)
qed

text \<open>
  C9, as the code has it. Take a configuration as \<open>BuildAzureConfig\<close> hands it to the
  validator (populated, and with the deployment parameters file read where there were
  no parameters). If its VM type is the standard one and its deployment name is empty
  or its deployment parameters are empty, \<open>BuildAzureConfig\<close> fails with the error of
  the validator that names a missing field: the resource group when that is empty as
  well (the validator looks at it first), else the deployment name when that is empty,
  else the deployment parameters; parameters that are empty at that point are what
  the parameters file gave. When the VM type is the standard one, there are no
  parameters and reading the parameters file fails, \<open>BuildAzureConfig\<close> fails before
  the validator runs, with the error of the read, whatever the deployment name is. No
  configuration of the standard VM type is returned without a deployment name and
  deployment parameters.
\<close>

theorem deployment_mode_requires_fields:
  "(resolve x configReader = Inr cfg \<and> VMType cfg = vmTypeStandard x
      \<and> (Deployment cfg = [] \<or> Mapping.is_empty (DeploymentParameters cfg))
    \<longrightarrow> BuildAzureConfig x configReader =
           Inl (ValidationFailed
                  (if ResourceGroup cfg = [] then ''resource group not set''
                   else if Deployment cfg = [] then ''deployment not set''
                   else ''deploymentParameters not set''))
       \<and> (Mapping.is_empty (DeploymentParameters cfg) \<longrightarrow>
            readDeploymentParameters x deploymentParametersPath = Inr (DeploymentParameters cfg)))
   \<and> (populate x configReader = Inr c0
      \<and> switchesFromEnv x (alwaysFromEnv x c0) = Inr c1
      \<and> rateLimitsOfConfig x c1 = Inr c2
      \<and> VMType (defaultVMType x c2) = vmTypeStandard x
      \<and> Mapping.is_empty (DeploymentParameters c2)
      \<and> readDeploymentParameters x deploymentParametersPath = Inl e
    \<longrightarrow> BuildAzureConfig x configReader = Inl e)
   \<and> (BuildAzureConfig x configReader = Inr cfg' \<and> VMType cfg' = vmTypeStandard x
    \<longrightarrow> Deployment cfg' \<noteq> [] \<and> \<not> Mapping.is_empty (DeploymentParameters cfg'))"
proof (intro conjI impI)
  assume a: "resolve x configReader = Inr cfg \<and> VMType cfg = vmTypeStandard x
      \<and> (Deployment cfg = [] \<or> Mapping.is_empty (DeploymentParameters cfg))"
  then have r: "resolve x configReader = Inr cfg" and v: "VMType cfg = vmTypeStandard x"
    and d: "Deployment cfg = [] \<or> Mapping.is_empty (DeploymentParameters cfg)"
    by simp_all
  have "validate x cfg =
      Some (ValidationFailed
              (if ResourceGroup cfg = [] then ''resource group not set''
               else if Deployment cfg = [] then ''deployment not set''
               else ''deploymentParameters not set''))"
    using v d by (auto simp: validate_def)
  then show "BuildAzureConfig x configReader =
           Inl (ValidationFailed
                  (if ResourceGroup cfg = [] then ''resource group not set''
                   else if Deployment cfg = [] then ''deployment not set''
                   else ''deploymentParameters not set''))"
    by (simp add: BuildAzureConfig_def r bindE_Inr)
  assume "Mapping.is_empty (DeploymentParameters cfg)"
  with r v show "readDeploymentParameters x deploymentParametersPath =
      Inr (DeploymentParameters cfg)"
    by (rule resolve_parameters)
next
  assume a: "populate x configReader = Inr c0
      \<and> switchesFromEnv x (alwaysFromEnv x c0) = Inr c1
      \<and> rateLimitsOfConfig x c1 = Inr c2
      \<and> VMType (defaultVMType x c2) = vmTypeStandard x
      \<and> Mapping.is_empty (DeploymentParameters c2)
      \<and> readDeploymentParameters x deploymentParametersPath = Inl e"
  then have p: "populate x configReader = Inr c0"
    and s: "switchesFromEnv x (alwaysFromEnv x c0) = Inr c1"
    and r: "rateLimitsOfConfig x c1 = Inr c2"
    and v: "VMType (defaultVMType x c2) = vmTypeStandard x"
    and m: "Mapping.is_empty (DeploymentParameters c2)"
    and f: "readDeploymentParameters x deploymentParametersPath = Inl e"
    by simp_all
  have "Mapping.is_empty (DeploymentParameters (defaultVMType x c2))"
    using m by (simp add: defaultVMType_def)
  then have "deploymentParametersFromFile x (defaultVMType x c2) = Inl e"
    using v f by (simp add: deploymentParametersFromFile_def bindE_def)
  then have "resolve x configReader = Inl e"
    by (simp add: resolve_def p s r bindE_def)
  then show "BuildAzureConfig x configReader = Inl e"
    by (simp add: BuildAzureConfig_def bindE_def)
next
  assume a: "BuildAzureConfig x configReader = Inr cfg' \<and> VMType cfg' = vmTypeStandard x"
  then have b: "BuildAzureConfig x configReader = Inr cfg'" and v: "VMType cfg' = vmTypeStandard x"
    by simp_all
  show "Deployment cfg' \<noteq> []" and "\<not> Mapping.is_empty (DeploymentParameters cfg')"
    using standard_config_has_deployment [OF b v] by simp_all
qed

theorem deployment_mode_requires_fields_witness:
  "resolve emptyParametersExternals (Some (Decoded deploymentPayload)) = Inr deploymentResolved
   \<and> VMType deploymentResolved = vmTypeStandard emptyParametersExternals
   \<and> Deployment deploymentResolved = ''cluster''
   \<and> Mapping.is_empty (DeploymentParameters deploymentResolved)
   \<and> BuildAzureConfig emptyParametersExternals (Some (Decoded deploymentPayload)) =
       Inl (ValidationFailed ''deploymentParameters not set'')
   \<and> readDeploymentParameters emptyParametersExternals deploymentParametersPath =
       Inr Mapping.empty
   \<and> populate exampleExternals (Some (Decoded noDeploymentPayload)) = Inr noDeploymentPayload
   \<and> switchesFromEnv exampleExternals (alwaysFromEnv exampleExternals noDeploymentPayload) =
       Inr noDeploymentPayload
   \<and> rateLimitsOfConfig exampleExternals noDeploymentPayload =
       Inr (noDeploymentPayload\<lparr>CloudProviderRateLimitConfig := resolvedDefaultRateLimits\<rparr>)
   \<and> VMType noDeploymentPayload = vmTypeStandard exampleExternals
   \<and> Deployment noDeploymentPayload = []
   \<and> Mapping.is_empty (DeploymentParameters noDeploymentPayload)
   \<and> readDeploymentParameters exampleExternals deploymentParametersPath =
       Inl (ProviderFailure ''readDeploymentParameters'')
   \<and> BuildAzureConfig exampleExternals (Some (Decoded noDeploymentPayload)) =
       Inl (ProviderFailure ''readDeploymentParameters'')
   \<and> BuildAzureConfig filledParametersExternals (Some (Decoded deploymentPayload)) =
       Inr filledParametersResolved
   \<and> VMType filledParametersResolved = vmTypeStandard filledParametersExternals
   \<and> Deployment filledParametersResolved \<noteq> []
   \<and> \<not> Mapping.is_empty (DeploymentParameters filledParametersResolved)"
proof -
  have h: "VMType deploymentResolved = vmTypeStandard emptyParametersExternals"
    "Deployment deploymentResolved = ''cluster''"
    "Mapping.is_empty (DeploymentParameters deploymentResolved)"
    "ResourceGroup deploymentResolved = ''rg''"
    "DeploymentParameters deploymentResolved = Mapping.empty"
    by (simp_all add: deploymentResolved_def deploymentPayload_def emptyConfig_def
        emptyParametersExternals_def exampleExternals_def)
  have p: "populate exampleExternals (Some (Decoded noDeploymentPayload)) = Inr noDeploymentPayload"
    by (simp add: populate_def)
  have s: "switchesFromEnv exampleExternals (alwaysFromEnv exampleExternals noDeploymentPayload) =
      Inr noDeploymentPayload"
    by (simp add: switchesFromEnv_def alwaysFromEnv_def TrimSpace_def fromEnv_def bindE_def
        library_defs noDeploymentPayload_def emptyConfig_def disabledRateLimitConfig_def
        exampleExternals_def)
  have r: "rateLimitsOfConfig exampleExternals noDeploymentPayload =
      Inr (noDeploymentPayload\<lparr>CloudProviderRateLimitConfig := resolvedDefaultRateLimits\<rparr>)"
    by (simp add: rateLimitsOfConfig_def rate_limit_defs noDeploymentPayload_def emptyConfig_def
        resolvedDefaultRateLimits_def exampleExternals_def)
  have n: "VMType noDeploymentPayload = vmTypeStandard exampleExternals"
    "Deployment noDeploymentPayload = []"
    "Mapping.is_empty (DeploymentParameters noDeploymentPayload)"
    "readDeploymentParameters exampleExternals deploymentParametersPath =
       Inl (ProviderFailure ''readDeploymentParameters'')"
    by (simp_all add: noDeploymentPayload_def emptyConfig_def exampleExternals_def)
  have v: "VMType (defaultVMType exampleExternals
      (noDeploymentPayload\<lparr>CloudProviderRateLimitConfig := resolvedDefaultRateLimits\<rparr>)) =
      vmTypeStandard exampleExternals"
    "Mapping.is_empty (DeploymentParameters
      (noDeploymentPayload\<lparr>CloudProviderRateLimitConfig := resolvedDefaultRateLimits\<rparr>))"
    by (simp_all add: defaultVMType_def noDeploymentPayload_def emptyConfig_def
        exampleExternals_def)
  have one: "BuildAzureConfig emptyParametersExternals (Some (Decoded deploymentPayload)) =
       Inl (ValidationFailed ''deploymentParameters not set'')"
    using deployment_mode_requires_fields
        [of emptyParametersExternals "Some (Decoded deploymentPayload)" deploymentResolved
          emptyConfig emptyConfig emptyConfig ConflictingIdentity emptyConfig]
      h deployment_resolve
    by simp
  have two: "BuildAzureConfig exampleExternals (Some (Decoded noDeploymentPayload)) =
       Inl (ProviderFailure ''readDeploymentParameters'')"
    using deployment_mode_requires_fields
        [of exampleExternals "Some (Decoded noDeploymentPayload)" emptyConfig noDeploymentPayload
          noDeploymentPayload
          "noDeploymentPayload\<lparr>CloudProviderRateLimitConfig := resolvedDefaultRateLimits\<rparr>"
          "ProviderFailure ''readDeploymentParameters''" emptyConfig]
      p s r n(4) v
    by simp
  have three: "readDeploymentParameters emptyParametersExternals deploymentParametersPath =
       Inr Mapping.empty"
    by (simp add: emptyParametersExternals_def)
  have f: "VMType filledParametersResolved = vmTypeStandard filledParametersExternals"
    by (simp add: filledParametersResolved_def deploymentResolved_def deploymentPayload_def
        filledParametersExternals_def exampleExternals_def)
  have four: "Deployment filledParametersResolved \<noteq> []
      \<and> \<not> Mapping.is_empty (DeploymentParameters filledParametersResolved)"
    using deployment_mode_requires_fields
        [of filledParametersExternals "Some (Decoded deploymentPayload)" emptyConfig emptyConfig
          emptyConfig emptyConfig ConflictingIdentity filledParametersResolved,
          THEN conjunct2, THEN conjunct2, THEN mp, OF conjI, OF filled_parameters_build f] .
  show ?thesis
    using one two three four f filled_parameters_build h(1-3) deployment_resolve p s r n
    by simp
qed

text \<open>
  The claim C9 as the specification states it fails when the parameters file cannot
  be read: the payload of the standard VM type with no deployment name and no
  parameters is refused with the error of the read, not with an error of the
  validator.
\<close>

theorem deployment_mode_counterexample:
  "VMType noDeploymentPayload = vmTypeStandard exampleExternals
   \<and> Deployment noDeploymentPayload = []
   \<and> Mapping.is_empty (DeploymentParameters noDeploymentPayload)
   \<and> readDeploymentParameters exampleExternals deploymentParametersPath =
       Inl (ProviderFailure ''readDeploymentParameters'')
   \<and> BuildAzureConfig exampleExternals (Some (Decoded noDeploymentPayload)) =
       Inl (ProviderFailure ''readDeploymentParameters'')"
  using no_deployment_build
  by (simp add: noDeploymentPayload_def emptyConfig_def exampleExternals_def)

section \<open>What \<open>TrimSpace\<close> does trim\<close>

lemma leading_0_iff:
  "leading ws s = 0 \<longleftrightarrow> (\<forall>w \<in> set ws. w = [] \<or> take (length w) s \<noteq> w)"
proof -
  have "leading ws s = 0 \<longleftrightarrow> filter (\<lambda>w. w \<noteq> [] \<and> take (length w) s = w) ws = []"
  proof (cases "filter (\<lambda>w. w \<noteq> [] \<and> take (length w) s = w) ws")
    case Nil
    then show ?thesis by (simp add: leading_def)
  next
    case (Cons w rest)
    then have "w \<in> set (filter (\<lambda>w. w \<noteq> [] \<and> take (length w) s = w) ws)" by simp
    then have "w \<noteq> []" by simp
    with Cons show ?thesis by (simp add: leading_def)
  qed
  then show ?thesis by (auto simp: filter_empty_conv)
qed

lemma trimLeading_leading: "leading ws (trimLeading ws s) = 0"
proof (induction ws s rule: trimLeading.induct)
  case (1 ws)
  show ?case by (auto simp: leading_0_iff)
next
  case (2 ws c cs)
  then show ?case by simp
qed

text \<open>Trimming cuts a prefix off.\<close>

lemma trimLeading_suffix: "\<exists>p. s = p @ trimLeading ws s"
proof (induction ws s rule: trimLeading.induct)
  case (1 ws)
  show ?case by simp
next
  case (2 ws c cs)
  show ?case
  proof (cases "leading ws (c # cs) = 0")
    case True
    then show ?thesis by simp
  next
    case False
    with 2 obtain p where p: "drop (leading ws (c # cs) - 1) cs =
        p @ trimLeading ws (drop (leading ws (c # cs) - 1) cs)"
      by blast
    have "c # cs = (c # take (leading ws (c # cs) - 1) cs) @ drop (leading ws (c # cs) - 1) cs"
      by simp
    also have "\<dots> = ((c # take (leading ws (c # cs) - 1) cs) @ p) @ trimLeading ws (c # cs)"
      using p False by simp
    finally show ?thesis by blast
  qed
qed

text \<open>Cutting the back of a string off brings no white space to its front.\<close>

lemma leading_prefix:
  assumes "leading ws (r @ q) = 0"
  shows "leading ws r = 0"
  unfolding leading_0_iff
proof (intro ballI)
  fix w assume w: "w \<in> set ws"
  show "w = [] \<or> take (length w) r \<noteq> w"
  proof (rule ccontr)
    assume "\<not> (w = [] \<or> take (length w) r \<noteq> w)"
    then have n: "w \<noteq> []" and t: "take (length w) r = w" by auto
    have "length (take (length w) r) = length w"
      using t by simp
    then have "length w \<le> length r"
      by simp
    then have "take (length w) (r @ q) = w" using t by simp
    with assms w n show False by (auto simp: leading_0_iff)
  qed
qed

lemma strings_TrimSpace_trimmed: "trimmed (strings_TrimSpace s)"
proof -
  define t where "t = trimLeading whiteSpace s"
  define u where "u = trimLeading (map rev whiteSpace) (rev t)"
  obtain p where p: "rev t = p @ u"
    unfolding u_def using trimLeading_suffix by blast
  then have t: "t = rev u @ rev p"
    by (metis rev_append rev_rev_ident)
  have "leading whiteSpace t = 0"
    unfolding t_def by (rule trimLeading_leading)
  then have "leading whiteSpace (rev u) = 0"
    unfolding t by (rule leading_prefix)
  moreover have "leading (map rev whiteSpace) u = 0"
    unfolding u_def by (rule trimLeading_leading)
  ultimately show ?thesis
    by (simp add: trimmed_def strings_TrimSpace_def t_def u_def)
qed

lemma alwaysFromEnv_trimmed:
  "list_all trimmed (trimmedStrings (alwaysFromEnv x c))"
  "trimmed (VMType (alwaysFromEnv x c))"
  by (simp_all add: alwaysFromEnv_def TrimSpace_def trimmedStrings_def strings_TrimSpace_trimmed)

lemma switchesFromEnv_strings:
  assumes "switchesFromEnv x c = Inr c'"
  shows "trimmedStrings c' = trimmedStrings c" and "VMType c' = VMType c"
  using assms by (auto simp: switchesFromEnv_def bindE_Inr_iff trimmedStrings_def)

lemma rateLimitsOfConfig_strings:
  assumes "rateLimitsOfConfig x c = Inr c'"
  shows "trimmedStrings c' = trimmedStrings c" and "VMType c' = VMType c"
  using assms
  by (auto simp: rateLimitsOfConfig_def bindE_Inr_iff trimmedStrings_def split: option.splits)

lemma defaultVMType_strings:
  "trimmedStrings (defaultVMType x c) = trimmedStrings c"
  "VMType (defaultVMType x c) = (if VMType c = [] then vmTypeVMSS x else VMType c)"
  by (simp_all add: defaultVMType_def trimmedStrings_def)

lemma deploymentParametersFromFile_strings:
  assumes "deploymentParametersFromFile x c = Inr c'"
  shows "trimmedStrings c' = trimmedStrings c" and "VMType c' = VMType c"
  using assms
  by (auto simp: deploymentParametersFromFile_def bindE_Inr_iff trimmedStrings_def
      split: if_splits)

lemma defaultMaxDeployments_strings:
  "trimmedStrings (defaultMaxDeployments x c) = trimmedStrings c"
  "VMType (defaultMaxDeployments x c) = VMType c"
  by (simp_all add: defaultMaxDeployments_def trimmedStrings_def)

text \<open>
  In every configuration that \<open>BuildAzureConfig\<close> returns, from a payload or from the
  environment, the twelve strings are trimmed, and so is the VM type when the default
  \<open>vmTypeVMSS\<close> is.
\<close>

lemma thirteen_strings_are_trimmed:
  assumes "BuildAzureConfig x configReader = Inr cfg"
  shows "list_all trimmed (trimmedStrings cfg)"
    and "trimmed (vmTypeVMSS x) \<Longrightarrow> trimmed (VMType cfg)"
proof -
  from assms have "resolve x configReader = Inr cfg"
    by (auto simp: BuildAzureConfig_def bindE_Inr_iff split: option.splits)
  then obtain c c1 c2 c3 where s: "switchesFromEnv x (alwaysFromEnv x c) = Inr c1"
    and r: "rateLimitsOfConfig x c1 = Inr c2"
    and d: "deploymentParametersFromFile x (defaultVMType x c2) = Inr c3"
    and cfg: "cfg = defaultMaxDeployments x c3"
    unfolding resolve_def bindE_Inr_iff by blast
  have "trimmedStrings cfg = trimmedStrings (alwaysFromEnv x c)"
    using switchesFromEnv_strings(1) [OF s] rateLimitsOfConfig_strings(1) [OF r]
      deploymentParametersFromFile_strings(1) [OF d]
    by (simp add: cfg defaultMaxDeployments_strings defaultVMType_strings)
  then show "list_all trimmed (trimmedStrings cfg)"
    by (simp add: alwaysFromEnv_trimmed)
  have v: "VMType c2 = VMType (alwaysFromEnv x c)"
    using switchesFromEnv_strings(2) [OF s] rateLimitsOfConfig_strings(2) [OF r] by simp
  have "VMType cfg = (if VMType c2 = [] then vmTypeVMSS x else VMType c2)"
    using deploymentParametersFromFile_strings(2) [OF d]
    by (simp add: cfg defaultMaxDeployments_strings defaultVMType_strings)
  then show "trimmed (VMType cfg)" if "trimmed (vmTypeVMSS x)"
    using that v alwaysFromEnv_trimmed(2) [of x c] by simp
qed


section \<open>Identity, trimming and backoff\<close>

text \<open>
  C2. The check of line 212 stands in the branch that reads the environment, and the
  validator has none: a payload that switches both identity extensions on is
  resolved without an error and keeps both switches, while the same two switches in
  the environment give the conflict error.
\<close>

theorem payload_keeps_both_identities:
  "BuildAzureConfig exampleExternals (Some (Decoded bothIdentitiesPayload)) =
     Inr (bothIdentitiesPayload
           \<lparr> CloudProviderRateLimitConfig := resolvedDefaultRateLimits,
             VMType := ''vmss'', MaxDeploymentsCount := 10 \<rparr>)
   \<and> UseManagedIdentityExtension bothIdentitiesPayload
   \<and> UseWorkloadIdentityExtension bothIdentitiesPayload
   \<and> BuildAzureConfig conflictingExternals None = Inl ConflictingIdentity"
  using both_identities_build conflicting_build
  by (simp add: bothIdentitiesPayload_def)

text \<open>
  C4. \<open>TrimSpace\<close> assigns thirteen of the seventeen strings of a \<open>Config\<close>, and those
  are trimmed in every configuration that \<open>BuildAzureConfig\<close> returns (lemma
  \<open>thirteen_strings_are_trimmed\<close>). The other four are not: the base URL, the federated
  token file and the user assigned identity id come out of the environment with their
  blanks (the resource group beside them is trimmed), and an authentication method
  written \<open>" cli"\<close> in the payload reaches the validator untrimmed and is refused.
\<close>

theorem four_strings_stay_untrimmed:
  "BuildAzureConfig environmentExternals None = Inr environmentResolved
   \<and> ResourceGroup environmentResolved = ''rg''
   \<and> trimmed (ResourceGroup environmentResolved)
   \<and> ARMBaseURLForAPClient environmentResolved = '' https://arm.example ''
   \<and> \<not> trimmed (ARMBaseURLForAPClient environmentResolved)
   \<and> AADFederatedTokenFile environmentResolved = '' /var/run/token ''
   \<and> \<not> trimmed (AADFederatedTokenFile environmentResolved)
   \<and> UserAssignedIdentityID environmentResolved = '' id ''
   \<and> \<not> trimmed (UserAssignedIdentityID environmentResolved)
   \<and> \<not> trimmed (AuthMethod untrimmedAuthPayload)
   \<and> BuildAzureConfig exampleExternals (Some (Decoded untrimmedAuthPayload)) =
       Inl (ValidationFailed ''unsupported authorization method:  cli'')"
  using environment_build untrimmed_auth_build
  by (simp add: environmentResolved_def untrimmedAuthPayload_def emptyConfig_def trimmed_def
      leading_def whiteSpace_def)

lemma BuildAzureConfig_Inr: "BuildAzureConfig x configReader = Inr cfg \<Longrightarrow> resolve x configReader = Inr cfg"
  by (auto simp: BuildAzureConfig_def bindE_Inr_iff split: option.splits)

text \<open>Nothing after the population touches the backoff fields.\<close>

lemma alwaysFromEnv_backoff: "backoffFields (alwaysFromEnv x c) = backoffFields c"
  by (simp add: backoffFields_def alwaysFromEnv_def TrimSpace_def)

lemma switchesFromEnv_backoff:
  "switchesFromEnv x c = Inr c' \<Longrightarrow> backoffFields c' = backoffFields c"
  by (auto simp: switchesFromEnv_def bindE_Inr_iff backoffFields_def)

lemma rateLimitsOfConfig_backoff:
  "rateLimitsOfConfig x c = Inr c' \<Longrightarrow> backoffFields c' = backoffFields c"
  by (auto simp: rateLimitsOfConfig_def bindE_Inr_iff backoffFields_def split: option.splits)

lemma defaultVMType_backoff: "backoffFields (defaultVMType x c) = backoffFields c"
  by (simp add: backoffFields_def defaultVMType_def)

lemma deploymentParametersFromFile_backoff:
  "deploymentParametersFromFile x c = Inr c' \<Longrightarrow> backoffFields c' = backoffFields c"
  by (auto simp: deploymentParametersFromFile_def bindE_Inr_iff backoffFields_def split: if_splits)

lemma defaultMaxDeployments_backoff: "backoffFields (defaultMaxDeployments x c) = backoffFields c"
  by (simp add: backoffFields_def defaultMaxDeployments_def)

lemma resolve_backoff:
  assumes "resolve x configReader = Inr cfg"
  obtains c where "populate x configReader = Inr c" and "backoffFields cfg = backoffFields c"
proof -
  from assms obtain c c1 c2 c3 where p: "populate x configReader = Inr c"
    and s: "switchesFromEnv x (alwaysFromEnv x c) = Inr c1"
    and r: "rateLimitsOfConfig x c1 = Inr c2"
    and d: "deploymentParametersFromFile x (defaultVMType x c2) = Inr c3"
    and cfg: "cfg = defaultMaxDeployments x c3"
    unfolding resolve_def bindE_Inr_iff by blast
  have "backoffFields cfg = backoffFields c"
    using switchesFromEnv_backoff [OF s] rateLimitsOfConfig_backoff [OF r]
      deploymentParametersFromFile_backoff [OF d]
    by (simp add: cfg defaultMaxDeployments_backoff defaultVMType_backoff alwaysFromEnv_backoff)
  with p show ?thesis by (rule that)
qed

lemma tuningFromEnv_backoff:
  assumes "tuningFromEnv x c = Inr c'"
    and "ParseBool (Getenv x ''ENABLE_BACKOFF'') = Some True"
  shows "CloudProviderBackoff c'"
proof -
  have "fromEnv x ''ENABLE_BACKOFF'' ParseBool (CloudProviderBackoff c) = Inr True"
    using assms(2) by (rule fromEnv_parsed) (simp add: ParseBool_def)
  then show ?thesis
    using assms(1) by (auto simp: tuningFromEnv_def bindE_Inr_iff)
qed

lemma backoffFromEnv_defaults:
  assumes "backoffFromEnv x c = Inr c'"
    and "CloudProviderBackoff c"
    and "Getenv x ''BACKOFF_RETRIES'' = []"
    and "Getenv x ''BACKOFF_EXPONENT'' = []"
    and "Getenv x ''BACKOFF_DURATION'' = []"
    and "Getenv x ''BACKOFF_JITTER'' = []"
  shows "backoffFields c' = (True, 6, Num (3 / 2), 5, Num 1)"
  using assms
  by (auto simp: backoffFromEnv_def fromEnv_unset bindE_Inr backoffFields_def
      backoffRetriesDefault_def backoffExponentDefault_def backoffDurationDefault_def
      backoffJitterDefault_def)

lemma payload_backoff_kept:
  assumes "BuildAzureConfig x (Some (Decoded c)) = Inr cfg"
  shows "backoffFields cfg = backoffFields c"
proof -
  from assms have "resolve x (Some (Decoded c)) = Inr cfg"
    by (rule BuildAzureConfig_Inr)
  then obtain c' where "populate x (Some (Decoded c)) = Inr c'"
    and "backoffFields cfg = backoffFields c'"
    by (rule resolve_backoff)
  then show ?thesis
    by (simp add: populate_def)
qed

text \<open>
  C7, as the code has it. When the configuration is read from the environment (no
  payload), \<open>ENABLE_BACKOFF\<close> reads as true, none of \<open>BACKOFF_RETRIES\<close>,
  \<open>BACKOFF_EXPONENT\<close>, \<open>BACKOFF_DURATION\<close> and \<open>BACKOFF_JITTER\<close> is set to more than the
  empty string and \<open>BuildAzureConfig\<close> returns a configuration, the backoff fields are 6,
  1.5, 5 and 1.0, and the retry policy built from them has 6 steps, factor 1.5, a
  duration of 5 seconds and jitter 1.0. When \<open>BuildAzureConfig\<close> returns a configuration
  for a payload, whatever payload it is, the backoff switch and the four backoff
  fields are those the payload decodes to, and so is the retry policy.
\<close>

theorem backoff_defaults_from_environment:
  "(BuildAzureConfig x None = Inr cfg
      \<and> ParseBool (Getenv x ''ENABLE_BACKOFF'') = Some True
      \<and> Getenv x ''BACKOFF_RETRIES'' = []
      \<and> Getenv x ''BACKOFF_EXPONENT'' = []
      \<and> Getenv x ''BACKOFF_DURATION'' = []
      \<and> Getenv x ''BACKOFF_JITTER'' = []
    \<longrightarrow> CloudProviderBackoff cfg
       \<and> CloudProviderBackoffRetries cfg = 6
       \<and> CloudProviderBackoffExponent cfg = Num (3 / 2)
       \<and> CloudProviderBackoffDuration cfg = 5
       \<and> CloudProviderBackoffJitter cfg = Num 1
       \<and> getAzureClientConfig_Backoff cfg =
           \<lparr> Steps = 6, Factor = Num (3 / 2), Duration = 5 * 1000000000, Jitter = Num 1 \<rparr>)
   \<and> (BuildAzureConfig x (Some (Decoded c)) = Inr cfg'
    \<longrightarrow> CloudProviderBackoff cfg' = CloudProviderBackoff c
       \<and> CloudProviderBackoffRetries cfg' = CloudProviderBackoffRetries c
       \<and> CloudProviderBackoffExponent cfg' = CloudProviderBackoffExponent c
       \<and> CloudProviderBackoffDuration cfg' = CloudProviderBackoffDuration c
       \<and> CloudProviderBackoffJitter cfg' = CloudProviderBackoffJitter c
       \<and> getAzureClientConfig_Backoff cfg' = getAzureClientConfig_Backoff c)"
proof (intro conjI impI)
  assume a: "BuildAzureConfig x None = Inr cfg
      \<and> ParseBool (Getenv x ''ENABLE_BACKOFF'') = Some True
      \<and> Getenv x ''BACKOFF_RETRIES'' = []
      \<and> Getenv x ''BACKOFF_EXPONENT'' = []
      \<and> Getenv x ''BACKOFF_DURATION'' = []
      \<and> Getenv x ''BACKOFF_JITTER'' = []"
  then have b0: "BuildAzureConfig x None = Inr cfg"
    and e0: "ParseBool (Getenv x ''ENABLE_BACKOFF'') = Some True"
    and u: "Getenv x ''BACKOFF_RETRIES'' = []" "Getenv x ''BACKOFF_EXPONENT'' = []"
      "Getenv x ''BACKOFF_DURATION'' = []" "Getenv x ''BACKOFF_JITTER'' = []"
    by simp_all
  from b0 have "resolve x None = Inr cfg"
    by (rule BuildAzureConfig_Inr)
  then obtain c where p: "populate x None = Inr c" and f: "backoffFields cfg = backoffFields c"
    by (rule resolve_backoff)
  from p obtain c1 c2 where t: "tuningFromEnv x c1 = Inr c2" and b: "backoffFromEnv x c2 = Inr c"
    unfolding populate_def by (auto simp: bindE_Inr_iff)
  have "backoffFields c = (True, 6, Num (3 / 2), 5, Num 1)"
    using b tuningFromEnv_backoff [OF t e0] u by (rule backoffFromEnv_defaults)
  with f have e: "backoffFields cfg = (True, 6, Num (3 / 2), 5, Num 1)"
    by simp
  from e show "CloudProviderBackoff cfg" "CloudProviderBackoffRetries cfg = 6"
    "CloudProviderBackoffExponent cfg = Num (3 / 2)" "CloudProviderBackoffDuration cfg = 5"
    "CloudProviderBackoffJitter cfg = Num 1"
    by (simp_all add: backoffFields_def)
  from e show "getAzureClientConfig_Backoff cfg =
      \<lparr> Steps = 6, Factor = Num (3 / 2), Duration = 5 * 1000000000, Jitter = Num 1 \<rparr>"
    by (simp add: backoffFields_def getAzureClientConfig_Backoff_def wrap64_def time_Second_def)
next
  assume "BuildAzureConfig x (Some (Decoded c)) = Inr cfg'"
  then have k: "backoffFields cfg' = backoffFields c"
    by (rule payload_backoff_kept)
  from k show "CloudProviderBackoff cfg' = CloudProviderBackoff c"
    "CloudProviderBackoffRetries cfg' = CloudProviderBackoffRetries c"
    "CloudProviderBackoffExponent cfg' = CloudProviderBackoffExponent c"
    "CloudProviderBackoffDuration cfg' = CloudProviderBackoffDuration c"
    "CloudProviderBackoffJitter cfg' = CloudProviderBackoffJitter c"
    by (simp_all add: backoffFields_def)
  from k show "getAzureClientConfig_Backoff cfg' = getAzureClientConfig_Backoff c"
    by (simp add: backoffFields_def getAzureClientConfig_Backoff_def)
qed

theorem backoff_defaults_from_environment_witness:
  "BuildAzureConfig environmentExternals None = Inr environmentResolved
   \<and> ParseBool (Getenv environmentExternals ''ENABLE_BACKOFF'') = Some True
   \<and> Getenv environmentExternals ''BACKOFF_RETRIES'' = []
   \<and> Getenv environmentExternals ''BACKOFF_EXPONENT'' = []
   \<and> Getenv environmentExternals ''BACKOFF_DURATION'' = []
   \<and> Getenv environmentExternals ''BACKOFF_JITTER'' = []
   \<and> CloudProviderBackoff environmentResolved
   \<and> getAzureClientConfig_Backoff environmentResolved =
       \<lparr> Steps = 6, Factor = Num (3 / 2), Duration = 5000000000, Jitter = Num 1 \<rparr>
   \<and> BuildAzureConfig exampleExternals (Some (Decoded backoffPayload)) = Inr backoffResolved
   \<and> getAzureClientConfig_Backoff backoffPayload =
       \<lparr> Steps = 3, Factor = Num 2, Duration = 10000000000, Jitter = Num (1 / 2) \<rparr>
   \<and> getAzureClientConfig_Backoff backoffResolved = getAzureClientConfig_Backoff backoffPayload"
proof -
  have h: "ParseBool (Getenv environmentExternals ''ENABLE_BACKOFF'') = Some True"
    "Getenv environmentExternals ''BACKOFF_RETRIES'' = []"
    "Getenv environmentExternals ''BACKOFF_EXPONENT'' = []"
    "Getenv environmentExternals ''BACKOFF_DURATION'' = []"
    "Getenv environmentExternals ''BACKOFF_JITTER'' = []"
    by (simp_all add: environmentExternals_def exampleExternals_def Getenv_def ParseBool_def)
  have g: "getAzureClientConfig_Backoff backoffPayload =
       \<lparr> Steps = 3, Factor = Num 2, Duration = 10000000000, Jitter = Num (1 / 2) \<rparr>"
    by (simp add: backoffPayload_def emptyConfig_def getAzureClientConfig_Backoff_def wrap64_def
        time_Second_def)
  have one: "CloudProviderBackoff environmentResolved
       \<and> getAzureClientConfig_Backoff environmentResolved =
           \<lparr> Steps = 6, Factor = Num (3 / 2), Duration = 5000000000, Jitter = Num 1 \<rparr>"
    using backoff_defaults_from_environment
        [of environmentExternals environmentResolved backoffPayload backoffResolved]
      h environment_build
    by simp
  have two: "getAzureClientConfig_Backoff backoffResolved =
      getAzureClientConfig_Backoff backoffPayload"
    using backoff_defaults_from_environment
        [of exampleExternals environmentResolved backoffPayload backoffResolved]
      backoff_payload_build
    by simp
  show ?thesis
    using one two h g environment_build backoff_payload_build
    by simp
qed

text \<open>
  The claim C7 as the specification states it fails for a payload. With backoff
  switched on in the payload and no backoff variable in the environment, the four
  backoff fields are what the payload gives: 3 retries, exponent 2, 10 seconds and
  jitter 0.5 resolve to just that policy, and a payload that gives none of them is
  refused by the validator instead of getting the defaults.
\<close>

theorem backoff_defaults_counterexample:
  "BuildAzureConfig exampleExternals (Some (Decoded backoffPayload)) = Inr backoffResolved
   \<and> CloudProviderBackoff backoffResolved
   \<and> Getenv exampleExternals ''BACKOFF_RETRIES'' = []
   \<and> Getenv exampleExternals ''BACKOFF_EXPONENT'' = []
   \<and> Getenv exampleExternals ''BACKOFF_DURATION'' = []
   \<and> Getenv exampleExternals ''BACKOFF_JITTER'' = []
   \<and> getAzureClientConfig_Backoff backoffResolved =
       \<lparr> Steps = 3, Factor = Num 2, Duration = 10000000000, Jitter = Num (1 / 2) \<rparr>
   \<and> CloudProviderBackoff bareBackoffPayload
   \<and> BuildAzureConfig exampleExternals (Some (Decoded bareBackoffPayload)) =
       Inl (ValidationFailed ''Cloud provider backoff is enabled but retries are not set'')"
  using backoff_payload_build bare_backoff_payload_build
  by (simp add: backoffResolved_def backoffPayload_def bareBackoffPayload_def emptyConfig_def
      exampleExternals_def Getenv_def getAzureClientConfig_Backoff_def wrap64_def
      time_Second_def)

section \<open>The empty string in the environment\<close>



































end
